theory Spec2Isabelle
  imports Main "HOL-Library.Char_ord" "HOL-Library.List_Lexorder" "HOL-Library.Sublist"
    "HOL-Library.AList"
begin

section \<open>Go strings and panics\<close>

text \<open>
  Go strings are byte sequences; they are modelled as \<open>string\<close> (a list of 8-bit
  characters). A panic carries either a string (the \<open>panic("...")\<close> calls of the
  source) or a run-time error of the Go runtime (index out of range, nil dereference).
  Every function that can panic returns \<open>panic + 'a\<close>, with \<open>Inl\<close> the panic.
\<close>

datatype panic = PanicString string | RuntimeError string

definition digit_char :: "nat \<Rightarrow> char" where
  "digit_char d = char_of (48 + d)"

function digits :: "nat \<Rightarrow> string" where
  "digits n = (if n < 10 then [digit_char n] else digits (n div 10) @ [digit_char (n mod 10)])"
  by pat_completeness auto
termination
  by (relation "measure (\<lambda>n. n)") auto

declare digits.simps [simp del]

text \<open>\<open>strconv.Itoa\<close>: the decimal form of an integer.\<close>

definition Itoa :: "int \<Rightarrow> string" where
  "Itoa i = (if i < 0 then CHR ''-'' # digits (nat (- i)) else digits (nat i))"

text \<open>\<open>strings.Index(s, sep)\<close>: the index of the first occurrence of \<open>sep\<close> in
  \<open>s\<close>, or \<open>-1\<close>.\<close>

fun strings_Index :: "string \<Rightarrow> string \<Rightarrow> int" where
  "strings_Index [] sep = (if sep = [] then 0 else - 1)"
| "strings_Index (x # xs) sep =
     (if prefix sep (x # xs) then 0
      else (let r = strings_Index xs sep in if r < 0 then - 1 else r + 1))"

text \<open>\<open>strings.Replace(s, old, new, -1)\<close> for a non-empty \<open>old\<close>: every
  non-overlapping occurrence, leftmost first.\<close>

function strings_ReplaceAll :: "string \<Rightarrow> string \<Rightarrow> string \<Rightarrow> string" where
  "strings_ReplaceAll s old new =
     (if s = [] \<or> old = [] then s
      else if prefix old s then new @ strings_ReplaceAll (drop (length old) s) old new
      else hd s # strings_ReplaceAll (tl s) old new)"
  by pat_completeness auto
termination
  by (relation "measure (\<lambda>(s, old, new). length s)") (auto simp: neq_Nil_conv)

declare strings_ReplaceAll.simps [simp del]

section \<open>Expressions (the tree of go/ast that the transpiler walks)\<close>

datatype Token =
    ADD | SUB | MUL | QUO | REM
  | AND | OR | XOR | SHL | SHR | AND_NOT
  | LAND | LOR | ARROW
  | EQL | LSS | GTR | NOT
  | NEQ | LEQ | GEQ | TILDE

fun Token_String :: "Token \<Rightarrow> string" where
  "Token_String ADD = ''+''"
| "Token_String SUB = ''-''"
| "Token_String MUL = ''*''"
| "Token_String QUO = ''/''"
| "Token_String REM = ''%''"
| "Token_String AND = ''&''"
| "Token_String OR = ''|''"
| "Token_String XOR = ''^''"
| "Token_String SHL = ''<<''"
| "Token_String SHR = ''>>''"
| "Token_String AND_NOT = ''&^''"
| "Token_String LAND = ''&&''"
| "Token_String LOR = ''||''"
| "Token_String ARROW = ''<-''"
| "Token_String EQL = ''==''"
| "Token_String LSS = ''<''"
| "Token_String GTR = ''>''"
| "Token_String NOT = ''!''"
| "Token_String NEQ = ''!=''"
| "Token_String LEQ = ''<=''"
| "Token_String GEQ = ''>=''"
| "Token_String TILDE = ''~''"

text \<open>
  The expression kinds that \<open>visitExpression\<close> distinguishes; every other kind of
  go/ast (index, slice, composite literal, ...) is \<open>OtherExpr\<close> with the name
  of its Go type, which is all the source reads of it.
\<close>

datatype Expr =
    BinaryExpr Expr Token Expr
  | UnaryExpr Token Expr
  | ParenExpr Expr
  | BasicLit string
  | Ident string
  | SelectorExpr Expr string
  | CallExpr Expr "Expr list"
  | OtherExpr string

section \<open>The syntax tree\<close>

text \<open>
  Modelled from the spec: the node types of \<open>parser/nodes.go\<close>, which is not among the
  sources; they carry the fields of the specification's data model, under the names by
  which \<open>parser.go\<close> and \<open>compiler.go\<close> read and write them. A \<open>*Block\<close> is a pointer: blocks are
  the objects that are shared between a parser's table of named blocks and its tree and
  that the merge of template inheritance mutates, so a block lives in a heap and is
  referred to by its address; \<open>None\<close> is the nil pointer. The other nodes are only
  written while they are built and are values. The children of a block are a list value
  (the sharing of backing arrays between Go slices is not modelled).
\<close>

type_synonym addr = nat

record SourcePosition =
  LineNum :: int
  ColNum :: int
  TokenLength :: int
  Filename :: string

text \<open>\<open>Attribute{SourcePosition, Name, Value, IsRaw, Condition}\<close>\<close>

record Attribute =
  aPos :: SourcePosition
  aName :: string
  aValue :: string
  IsRaw :: bool
  aCondition :: string

datatype Node =
    Block addr
  | Doctype SourcePosition string
  | Comment SourcePosition string bool "addr option"
  | Tag SourcePosition string "Attribute list" "addr option"
  | Text SourcePosition string bool
  | Condition SourcePosition string "addr option" "addr option"
  | Each SourcePosition string string string "addr option"
  | Buffered SourcePosition string bool
  | Assignment SourcePosition string string
  | Mixin SourcePosition string "string list" "addr option"
  | MixinCall SourcePosition string "string list"

text \<open>
  Field order of the constructors: \<open>Comment pos Value Silent Block\<close>,
  \<open>Tag pos Name Attributes Block\<close>, \<open>Text pos Value Raw\<close>,
  \<open>Condition pos Expression Positive Negative\<close>, \<open>Each pos Expression X Y Block\<close>,
  \<open>Buffered pos Expression Escaped\<close>, \<open>Assignment pos X Expression\<close>,
  \<open>Mixin pos Name Args Block\<close>, \<open>MixinCall pos Name Args\<close>.
\<close>

record BlockObj =
  bPos :: SourcePosition
  Children :: "Node list"

type_synonym heap = "addr \<Rightarrow> BlockObj option"

definition zeroPos :: SourcePosition where
  "zeroPos = \<lparr>LineNum = 0, ColNum = 0, TokenLength = 0, Filename = []\<rparr>"

text \<open>\<open>node.Pos()\<close>; \<open>None\<close> when the node is a block pointer that is not allocated.\<close>

fun Pos :: "heap \<Rightarrow> Node \<Rightarrow> SourcePosition option" where
  "Pos H (Block a) = map_option bPos (H a)"
| "Pos H (Doctype p _) = Some p"
| "Pos H (Comment p _ _ _) = Some p"
| "Pos H (Tag p _ _ _) = Some p"
| "Pos H (Text p _ _) = Some p"
| "Pos H (Condition p _ _ _) = Some p"
| "Pos H (Each p _ _ _ _) = Some p"
| "Pos H (Buffered p _ _) = Some p"
| "Pos H (Assignment p _ _) = Some p"
| "Pos H (Mixin p _ _ _) = Some p"
| "Pos H (MixinCall p _ _) = Some p"

section \<open>The compiler state\<close>

text \<open>
  The fields of \<open>Compiler\<close> that the code generator reads or writes. \<open>Funcs\<close> holds
  the names registered in \<open>Options.Funcs\<close> (only membership is ever asked);
  \<open>mixins\<close> maps a name to the \<open>Mixin\<close> node registered under it (its parameter
  names and its block). \<open>tempvarIndex\<close> is Go's \<open>int\<close>; it only counts up from 0 by
  one per temporary, so it is modelled unbounded.
\<close>

record Compiler =
  PrettyPrint :: bool
  Funcs :: "string list"
  indentLevel :: int
  buffer :: string
  tempvarIndex :: int
  node :: "Node option"
  mixins :: "string \<Rightarrow> (string list \<times> addr option) option"

text \<open>
  What the code generator uses from outside \<open>compiler.go\<close>, as parameters of the
  model: the key set of the runtime table \<open>FuncMap\<close> (runtime.go); Go's expression
  parser \<open>go/parser.ParseExpr\<close> (\<open>None\<close> when it returns an error); the methods
  \<open>Block.CanInline\<close> (of the block's children), \<open>Tag.IsSelfClosing\<close> (of the tag's
  name) and \<open>Doctype.String\<close> of nodes.go; and the order in which Go's runtime
  enumerates the keys of a map in \<open>for k := range m\<close>, which is unspecified.
\<close>

record Extern =
  FuncMap :: "string list"
  ParseExpr :: "string \<Rightarrow> Expr option"
  CanInline :: "Node list \<Rightarrow> bool"
  IsSelfClosing :: "string \<Rightarrow> bool"
  DoctypeString :: "string \<Rightarrow> string"
  rangeOrder :: "string list \<Rightarrow> string list"

definition builtinFunctions :: "string list" where
  "builtinFunctions =
     [''len'', ''print'', ''printf'', ''println'', ''urlquery'', ''js'', ''json'',
      ''index'', ''html'', ''unescaped'']"

definition writeBuf :: "string \<Rightarrow> Compiler \<Rightarrow> Compiler" where
  "writeBuf v c = c\<lparr>buffer := buffer c @ v\<rparr>"

definition tempvar :: "Compiler \<Rightarrow> string \<times> Compiler" where
  "tempvar c =
     (let c' = c\<lparr>tempvarIndex := tempvarIndex c + 1\<rparr>
      in (''$__jade_'' @ Itoa (tempvarIndex c'), c'))"

definition hasFunctionWithName :: "Extern \<Rightarrow> Compiler \<Rightarrow> string \<Rightarrow> bool" where
  "hasFunctionWithName E c name =
     (if name \<in> set (Funcs c) then True
      else if name \<in> set (FuncMap E) then True
      else False)"

section \<open>The expression transpiler\<close>

text \<open>
  \<open>visitExpression\<close> keeps a stack of value references (a \<open>container/list\<close> used
  at its front) and writes one instruction per operation to the buffer. \<open>pop\<close>
  on the empty stack returns the empty string.
\<close>

definition pop :: "string list \<Rightarrow> string \<times> string list" where
  "pop st = (case st of [] \<Rightarrow> ([], []) | v # rest \<Rightarrow> (v, rest))"

text \<open>The primitive of a binary operator and whether the result is negated;
  \<open>None\<close> is the \<open>default\<close> branch, which panics.\<close>

fun binaryPrimitive :: "Token \<Rightarrow> (string \<times> bool) option" where
  "binaryPrimitive ADD = Some (''__jade_add '', False)"
| "binaryPrimitive SUB = Some (''__jade_sub '', False)"
| "binaryPrimitive MUL = Some (''__jade_mul '', False)"
| "binaryPrimitive QUO = Some (''__jade_quo '', False)"
| "binaryPrimitive REM = Some (''__jade_rem '', False)"
| "binaryPrimitive LAND = Some (''and '', False)"
| "binaryPrimitive LOR = Some (''or '', False)"
| "binaryPrimitive EQL = Some (''__jade_eql '', False)"
| "binaryPrimitive NEQ = Some (''__jade_eql '', True)"
| "binaryPrimitive LSS = Some (''__jade_lss '', False)"
| "binaryPrimitive GTR = Some (''__jade_gtr '', False)"
| "binaryPrimitive LEQ = Some (''__jade_gtr '', True)"
| "binaryPrimitive GEQ = Some (''__jade_lss '', True)"
| "binaryPrimitive _ = None"

fun unaryPrimitive :: "Token \<Rightarrow> string option" where
  "unaryPrimitive SUB = Some ''__jade_minus ''"
| "unaryPrimitive ADD = Some ''__jade_plus ''"
| "unaryPrimitive NOT = Some ''not ''"
| "unaryPrimitive _ = None"

text \<open>The \<open>BinaryExpr\<close> branch after both operands have been evaluated.\<close>

definition execBinary :: "Token \<Rightarrow> Compiler \<times> string list \<Rightarrow> panic + Compiler \<times> string list" where
  "execBinary op s =
     (let (c, st) = s;
          (name, c1) = tempvar c
      in if op = OR then
           (let (a, st1) = pop st; (b, st2) = pop st1
            in Inr (writeBuf (''{{'' @ name @ '' := '' @ a @ '' | '' @ b @ ''}}'') c1, name # st2))
         else
           (let c2 = writeBuf (''{{'' @ name @ '' := '') c1
            in case binaryPrimitive op of
                 None \<Rightarrow> Inl (PanicString (''Unexpected operator: '' @ [CHR 0x27] @ Token_String op @ [CHR 0x27]))
               | Some (prim, negate) \<Rightarrow>
                   (let c3 = writeBuf prim c2;
                        (a, st1) = pop st; (b, st2) = pop st1;
                        c4 = writeBuf (a @ '' '' @ b @ ''}}'') c3
                    in if \<not> negate then Inr (c4, name # st2)
                       else (let (negname, c5) = tempvar c4
                             in Inr (writeBuf (''{{'' @ negname @ '' := not '' @ name @ ''}}'') c5,
                                     negname # st2)))))"

definition execUnary :: "Token \<Rightarrow> Compiler \<times> string list \<Rightarrow> panic + Compiler \<times> string list" where
  "execUnary op s =
     (let (c, st) = s;
          (name, c1) = tempvar c;
          c2 = writeBuf (''{{'' @ name @ '' := '') c1
      in case unaryPrimitive op of
           None \<Rightarrow> Inl (PanicString (''Unexpected operator: '' @ [CHR 0x27] @ Token_String op @ [CHR 0x27]))
         | Some prim \<Rightarrow>
             (let c3 = writeBuf prim c2; (a, st1) = pop st
              in Inr (writeBuf (a @ ''}}'') c3, name # st1)))"

definition execIdent :: "Extern \<Rightarrow> string \<Rightarrow> Compiler \<times> string list \<Rightarrow> Compiler \<times> string list" where
  "execIdent E name s =
     (let (c, st) = s
      in if length name \<ge> length ''__DOLLAR__'' \<and> take (length ''__DOLLAR__'') name = ''__DOLLAR__'' then
           (if name = ''__DOLLAR__'' then (c, ''.'' # st)
            else (c, (''$'' @ drop (length ''__DOLLAR__'') name) # st))
         else if name = ''nil'' then (c, name # st)
         else if hasFunctionWithName E c name then (c, name # st)
         else (c, (''.'' @ name) # st))"

definition execSelector :: "string \<Rightarrow> Compiler \<times> string list \<Rightarrow> Compiler \<times> string list" where
  "execSelector sel s =
     (let (c, st) = s;
          (x, st1) = pop st;
          x' = (if x = ''.'' then [] else x);
          (name, c1) = tempvar c
      in (writeBuf (''{{'' @ name @ '' := '' @ x' @ ''.'' @ sel @ ''}}'') c1, name # st1))"

text \<open>The loop that writes one popped argument per declared argument.\<close>

fun writeArgs :: "nat \<Rightarrow> Compiler \<times> string list \<Rightarrow> Compiler \<times> string list" where
  "writeArgs 0 s = s"
| "writeArgs (Suc n) s =
     (let (c, st) = s; (a, st1) = pop st
      in writeArgs n (writeBuf a (writeBuf '' '' c), st1))"

definition finishCall :: "string \<Rightarrow> nat \<Rightarrow> Compiler \<times> string list \<Rightarrow> Compiler \<times> string list" where
  "finishCall name n s =
     (let (c, st) = writeArgs n s
      in (writeBuf ''}}'' c, name # st))"

fun exec :: "Extern \<Rightarrow> Expr \<Rightarrow> Compiler \<times> string list \<Rightarrow> panic + Compiler \<times> string list"
and execRev :: "Extern \<Rightarrow> Expr list \<Rightarrow> Compiler \<times> string list \<Rightarrow> panic + Compiler \<times> string list"
where
  "exec E (BinaryExpr X op Y) s =
     (case exec E Y s of Inl p \<Rightarrow> Inl p
      | Inr s1 \<Rightarrow> (case exec E X s1 of Inl p \<Rightarrow> Inl p
      | Inr s2 \<Rightarrow> execBinary op s2))"
| "exec E (UnaryExpr op X) s =
     (case exec E X s of Inl p \<Rightarrow> Inl p
      | Inr s1 \<Rightarrow> execUnary op s1)"
| "exec E (ParenExpr X) s = exec E X s"
| "exec E (BasicLit v) s = Inr (fst s, v # snd s)"
| "exec E (Ident name) s = Inr (execIdent E name s)"
| "exec E (SelectorExpr X sel) s =
     (case exec E X s of Inl p \<Rightarrow> Inl p
      | Inr s1 \<Rightarrow> Inr (execSelector sel s1))"
| "exec E (CallExpr f args) s =
     (case execRev E args s of Inl p \<Rightarrow> Inl p
      | Inr (c, st) \<Rightarrow>
         (let (name, c1) = tempvar c;
              builtin = (case f of Ident n \<Rightarrow> n \<in> set builtinFunctions | _ \<Rightarrow> False)
          in if builtin then
               (let st1 = (case f of Ident n \<Rightarrow> n | _ \<Rightarrow> []) # st;
                    (a, st2) = pop st1
                in Inr (finishCall name (length args) (writeBuf (''{{'' @ name @ '' := '' @ a) c1, st2)))
             else
               (case f of
                  SelectorExpr X sel \<Rightarrow>
                    (case exec E X (c1, st) of Inl p \<Rightarrow> Inl p
                     | Inr (c2, st2) \<Rightarrow>
                        (let (x, st3) = pop st2;
                             x' = (if x = ''.'' then [] else x)
                         in Inr (finishCall name (length args)
                                  (writeBuf (''{{'' @ name @ '' := '' @ x' @ ''.'' @ sel @ '' '') c2, st3))))
                | _ \<Rightarrow>
                    (case exec E f (c1, st) of Inl p \<Rightarrow> Inl p
                     | Inr (c2, st2) \<Rightarrow>
                        (let (a, st3) = pop st2
                         in Inr (finishCall name (length args)
                                  (writeBuf (''{{'' @ name @ '' := '' @ a) c2, st3)))))))"
| "exec E (OtherExpr ty) s =
     Inl (PanicString (''Unable to parse expression. Unsupported: '' @ ty))"
| "execRev E [] s = Inr s"
| "execRev E (a # as) s =
     (case execRev E as s of Inl p \<Rightarrow> Inl p
      | Inr s1 \<Rightarrow> exec E a s1)"

definition visitExpression :: "Extern \<Rightarrow> Expr \<Rightarrow> Compiler \<Rightarrow> panic + string \<times> Compiler" where
  "visitExpression E outerexpr c =
     (case exec E outerexpr (c, []) of Inl p \<Rightarrow> Inl p
      | Inr (c1, st) \<Rightarrow> Inr (fst (pop st), c1))"

section \<open>Interpolation\<close>

definition visitRawInterpolation :: "Extern \<Rightarrow> string \<Rightarrow> Compiler \<Rightarrow> panic + string \<times> Compiler" where
  "visitRawInterpolation E value0 c =
     (let v = strings_ReplaceAll value0 ''$'' ''__DOLLAR__''
      in case (case ParseExpr E v of
                 Some e \<Rightarrow> Inr (Some e)
               | None \<Rightarrow>
                   (if v = [] then Inl (RuntimeError ''runtime error: index out of range [0] with length 0'')
                    else if v ! 0 = CHR 0x27 \<and> v ! (length v - 1) = CHR 0x27
                      then Inr (ParseExpr E ((v[0 := CHR 0x22])[length v - 1 := CHR 0x22]))
                      else Inr None)) of
           Inl p \<Rightarrow> Inl p
         | Inr None \<Rightarrow> Inl (PanicString (''Unable to parse expression: '' @ v))
         | Inr (Some e) \<Rightarrow>
             (case visitExpression E e c of
                Inl p \<Rightarrow> Inl p
              | Inr (r, c1) \<Rightarrow> Inr (strings_ReplaceAll r ''__DOLLAR__'' ''$'', c1)))"

definition visitInterpolation :: "Extern \<Rightarrow> string \<Rightarrow> Compiler \<Rightarrow> panic + string \<times> Compiler" where
  "visitInterpolation E v c =
     (case visitRawInterpolation E v c of
        Inl p \<Rightarrow> Inl p
      | Inr (r, c1) \<Rightarrow> Inr (''{{'' @ r @ ''}}'', c1))"

definition visitJSInterpolation :: "Extern \<Rightarrow> string \<Rightarrow> Compiler \<Rightarrow> panic + string \<times> Compiler" where
  "visitJSInterpolation E v c =
     (case visitRawInterpolation E v c of
        Inl p \<Rightarrow> Inl p
      | Inr (r, c1) \<Rightarrow> Inr (''{{ safeJS '' @ r @ ''}}'', c1))"

section \<open>Output helpers\<close>

fun tabs :: "nat \<Rightarrow> Compiler \<Rightarrow> Compiler" where
  "tabs 0 c = c"
| "tabs (Suc n) c = tabs n (writeBuf [CHR 0x09] c)"

definition indent :: "int \<Rightarrow> bool \<Rightarrow> Compiler \<Rightarrow> Compiler" where
  "indent offset newline c =
     (if \<not> PrettyPrint c then c
      else (let c1 = (if newline \<and> length (buffer c) > 0 then writeBuf [CHR 0x0A] c else c)
            in tabs (nat (indentLevel c1 + offset)) c1))"

definition escape :: "string \<Rightarrow> string" where
  "escape input =
     strings_ReplaceAll (strings_ReplaceAll input [CHR 0x5C] [CHR 0x5C, CHR 0x5C])
       [CHR 0x22] [CHR 0x5C, CHR 0x22]"

section \<open>Tags and their attributes\<close>

text \<open>The local type \<open>attrib\<close> of \<open>visitTag\<close>, and its table \<open>attribs\<close> (a Go map
  from names to \<open>*attrib\<close>), kept as an association list with one entry per key.\<close>

record attrib =
  attr_name :: string
  attr_value :: string
  attr_condition :: string

type_synonym attribs = "(string \<times> attrib) list"

text \<open>The first half of the body of the loop over \<open>tag.Attributes\<close>: the value and
  the condition of one declared attribute.\<close>

definition attrValue :: "Extern \<Rightarrow> Attribute \<Rightarrow> Compiler \<Rightarrow> panic + attrib \<times> Compiler" where
  "attrValue E item c =
     (case (if \<not> IsRaw item then
              (if strings_Index (aName item) ''on'' = 0
               then visitJSInterpolation E (aValue item) c
               else visitInterpolation E (aValue item) c)
            else if aValue item = [] then Inr ([], c)
            else (if IsRaw item then Inr (aValue item, c)
                  else Inr (''{{'' @ [CHR 0x22] @ aValue item @ [CHR 0x22] @ ''}}'', c))) of
        Inl p \<Rightarrow> Inl p
      | Inr (v, c1) \<Rightarrow>
          (case (if length (aCondition item) \<noteq> 0
                 then visitRawInterpolation E (aCondition item) c1
                 else Inr ([], c1)) of
             Inl p \<Rightarrow> Inl p
           | Inr (cond, c2) \<Rightarrow>
               Inr (\<lparr>attr_name = aName item, attr_value = v, attr_condition = cond\<rparr>, c2)))"

text \<open>The second half: a repeated \<open>class\<close> is merged into the entry already in the
  table, any other attribute is stored under its name.\<close>

definition addAttrib :: "attrib \<Rightarrow> attribs \<Rightarrow> attribs" where
  "addAttrib attr tbl =
     (case (if attr_name attr = ''class'' then map_of tbl ''class'' else None) of
        Some prevclass \<Rightarrow>
          (let v1 = '' '' @ attr_value attr;
               v2 = (if length (attr_condition attr) > 0
                     then ''{{if '' @ attr_condition attr @ ''}}'' @ v1 @ ''{{end}}''
                     else v1);
               prev1 = (if length (attr_condition prevclass) > 0
                        then prevclass\<lparr>attr_value :=
                                 ''{{if '' @ attr_condition prevclass @ ''}}'' @ attr_value prevclass @ ''{{end}}'',
                               attr_condition := []\<rparr>
                        else prevclass)
           in AList.update ''class'' (prev1\<lparr>attr_value := attr_value prev1 @ v2\<rparr>) tbl)
      | None \<Rightarrow> AList.update (attr_name attr) attr tbl)"

fun collectAttribs :: "Extern \<Rightarrow> Attribute list \<Rightarrow> attribs \<Rightarrow> Compiler \<Rightarrow> panic + attribs \<times> Compiler" where
  "collectAttribs E [] tbl c = Inr (tbl, c)"
| "collectAttribs E (item # items) tbl c =
     (case attrValue E item c of
        Inl p \<Rightarrow> Inl p
      | Inr (attr, c1) \<Rightarrow> collectAttribs E items (addAttrib attr tbl) c1)"

text \<open>The body of the loop over the sorted names.\<close>

definition emitAttr :: "attribs \<Rightarrow> string \<Rightarrow> Compiler \<Rightarrow> panic + Compiler" where
  "emitAttr tbl name c =
     (case map_of tbl name of
        None \<Rightarrow> Inl (RuntimeError ''runtime error: invalid memory address or nil pointer dereference'')
      | Some v \<Rightarrow>
          (let c1 = (if length (attr_condition v) > 0
                     then writeBuf (''{{if '' @ attr_condition v @ ''}}'') c else c);
               c2 = (if attr_value v = [] then writeBuf ('' '' @ name) c1
                     else writeBuf ('' '' @ name @ ''='' @ [CHR 0x22] @ attr_value v @ [CHR 0x22]) c1)
           in Inr (if length (attr_condition v) > 0 then writeBuf ''{{end}}'' c2 else c2)))"

fun emitAttrs :: "attribs \<Rightarrow> string list \<Rightarrow> Compiler \<Rightarrow> panic + Compiler" where
  "emitAttrs tbl [] c = Inr c"
| "emitAttrs tbl (name # names) c =
     (case emitAttr tbl name c of Inl p \<Rightarrow> Inl p | Inr c1 \<Rightarrow> emitAttrs tbl names c1)"

text \<open>\<open>sort.Strings\<close>: ascending in the byte-wise lexicographic order of Go strings.\<close>

definition sort_Strings :: "string list \<Rightarrow> string list" where
  "sort_Strings xs = sort xs"

text \<open>\<open>visitTag\<close> up to and including the attributes: the table is collected, the
  tag is opened, the names are enumerated, sorted and written.\<close>

definition visitTagOpen :: "Extern \<Rightarrow> string \<Rightarrow> Attribute list \<Rightarrow> Compiler \<Rightarrow> panic + Compiler" where
  "visitTagOpen E name attrs c =
     (case collectAttribs E attrs [] c of
        Inl p \<Rightarrow> Inl p
      | Inr (tbl, c1) \<Rightarrow>
          (let c2 = writeBuf (''<'' @ name) (indent 0 True c1);
               attrNames = rangeOrder E (map fst tbl)
           in emitAttrs tbl (sort_Strings attrNames) c2))"

section \<open>The class attribute and guards, in the words of the specification\<close>

text \<open>
  \<open>conditional cond v\<close> is \<open>v\<close> wrapped in its own conditional when the guard \<open>cond\<close> is
  not empty; \<open>classContribution\<close> is what a repeated \<open>class\<close> declaration adds to the
  merged value: a space and its value, wrapped when it is guarded. \<open>attrValues\<close> runs the
  first half of the loop body of \<open>visitTag\<close> over the declared attributes, in order.
\<close>

definition conditional :: "string \<Rightarrow> string \<Rightarrow> string" where
  "conditional cond v = (if cond = [] then v else ''{{if '' @ cond @ ''}}'' @ v @ ''{{end}}'')"

definition isClass :: "attrib \<Rightarrow> bool" where
  "isClass a = (attr_name a = ''class'')"

definition classContribution :: "attrib \<Rightarrow> string" where
  "classContribution a = conditional (attr_condition a) ('' '' @ attr_value a)"

text \<open>What is written for the entry of the table under \<open>name\<close>: the name alone when the
  value is empty, the name with the quoted value otherwise, inside the conditional of the
  entry's guard.\<close>

definition attrText :: "attribs \<Rightarrow> string \<Rightarrow> string" where
  "attrText tbl name =
     (case map_of tbl name of
        None \<Rightarrow> []
      | Some v \<Rightarrow>
          conditional (attr_condition v)
            (if attr_value v = [] then '' '' @ name
             else '' '' @ name @ ''='' @ [CHR 0x22] @ attr_value v @ [CHR 0x22]))"

fun attrValues :: "Extern \<Rightarrow> Attribute list \<Rightarrow> Compiler \<Rightarrow> panic + attrib list \<times> Compiler" where
  "attrValues E [] c = Inr ([], c)"
| "attrValues E (item # items) c =
     (case attrValue E item c of
        Inl p \<Rightarrow> Inl p
      | Inr (attr, c1) \<Rightarrow>
          (case attrValues E items c1 of
             Inl p \<Rightarrow> Inl p
           | Inr (as, c2) \<Rightarrow> Inr (attr # as, c2)))"

section \<open>Text\<close>

text \<open>
  The two regular expressions of \<open>visitText\<close>, \<open>\{\{(.*?)\}\}\<close> and \<open>#\{(.*?)\}\<close>,
  have the shape "opening delimiter, as few characters other than a newline as possible,
  closing delimiter". \<open>findEnd cl s\<close> is the length of the shortest such run in front of
  \<open>cl\<close>; \<open>regexSegments\<close> cuts a string into the matches that
  \<open>ReplaceAllStringFunc\<close> finds from left to right (\<open>Inr\<close>, the text between the
  delimiters) and the bytes outside every match (\<open>Inl\<close>).
\<close>

fun findEnd :: "string \<Rightarrow> string \<Rightarrow> nat option" where
  "findEnd cl [] = (if cl = [] then Some 0 else None)"
| "findEnd cl (x # xs) =
     (if prefix cl (x # xs) then Some 0
      else if x = CHR 0x0A then None
      else map_option Suc (findEnd cl xs))"

function regexSegments :: "string \<Rightarrow> string \<Rightarrow> string \<Rightarrow> (char + string) list" where
  "regexSegments opn cl s =
     (if s = [] \<or> opn = [] then map Inl s
      else if prefix opn s then
        (case findEnd cl (drop (length opn) s) of
           Some j \<Rightarrow> Inr (take j (drop (length opn) s))
                      # regexSegments opn cl (drop (length opn + j + length cl) s)
         | None \<Rightarrow> Inl (hd s) # regexSegments opn cl (tl s))
      else Inl (hd s) # regexSegments opn cl (tl s))"
  by pat_completeness auto
termination
  by (relation "measure (\<lambda>(opn, cl, s). length s)") (auto simp: neq_Nil_conv)

declare regexSegments.simps [simp del]

definition escapeBraces :: "string \<Rightarrow> string" where
  "escapeBraces v =
     concat (map (\<lambda>seg. case seg of
                     Inl ch \<Rightarrow> [ch]
                   | Inr inner \<Rightarrow> ''{{'' @ [CHR 0x22] @ ''{{'' @ [CHR 0x22] @ ''}}'' @ inner
                                  @ ''{{'' @ [CHR 0x22] @ ''}}'' @ [CHR 0x22] @ ''}}'')
                 (regexSegments ''{{'' ''}}'' v))"

fun interpolateSegments :: "Extern \<Rightarrow> (char + string) list \<Rightarrow> Compiler \<Rightarrow> panic + string \<times> Compiler" where
  "interpolateSegments E [] c = Inr ([], c)"
| "interpolateSegments E (Inl ch # segs) c =
     (case interpolateSegments E segs c of
        Inl p \<Rightarrow> Inl p
      | Inr (r, c1) \<Rightarrow> Inr (ch # r, c1))"
| "interpolateSegments E (Inr inner # segs) c =
     (case visitInterpolation E inner c of
        Inl p \<Rightarrow> Inl p
      | Inr (v, c1) \<Rightarrow>
          (case interpolateSegments E segs c1 of
             Inl p \<Rightarrow> Inl p
           | Inr (r, c2) \<Rightarrow> Inr (v @ r, c2)))"

text \<open>\<open>strings.Split(value, "\n")\<close>\<close>

fun splitLines :: "string \<Rightarrow> string list" where
  "splitLines [] = [[]]"
| "splitLines (x # xs) =
     (if x = CHR 0x0A then [] # splitLines xs
      else (case splitLines xs of [] \<Rightarrow> [[x]] | l # ls \<Rightarrow> (x # l) # ls))"

fun writeLines :: "string list \<Rightarrow> Compiler \<Rightarrow> Compiler" where
  "writeLines [] c = c"
| "writeLines [l] c = writeBuf l c"
| "writeLines (l # ls) c = writeLines ls (indent 0 False (writeBuf [CHR 0x0A] (writeBuf l c)))"

definition visitText :: "Extern \<Rightarrow> string \<Rightarrow> Compiler \<Rightarrow> panic + Compiler" where
  "visitText E txt c =
     (case interpolateSegments E (regexSegments ''#{'' ''}'' (escapeBraces txt)) c of
        Inl p \<Rightarrow> Inl p
      | Inr (v, c1) \<Rightarrow> Inr (writeLines (splitLines v) c1))"

section \<open>The walk of the tree\<close>

text \<open>
  The walk is recursive through the blocks of the heap and, at a mixin call, through the
  block registered for the mixin, which may call the mixin again; it therefore takes
  fuel, one unit per nested call. \<open>None\<close> is "the fuel ran out"; \<open>Some (Inl p)\<close> is the
  panic \<open>p\<close>. \<open>visit\<close> is the deferred recovery around the type switch; \<open>visitNode\<close> is the
  type switch with the body of the \<open>visitX\<close> function of each node type, where \<open>vb\<close>
  stands for the calls of \<open>visitBlock\<close>; \<open>visitChildren\<close> is the loop of \<open>visitBlock\<close>.
\<close>

definition nilDeref :: panic where
  "nilDeref = RuntimeError ''runtime error: invalid memory address or nil pointer dereference''"

text \<open>The deferred function of \<open>visit\<close>: a panic that is a string starting with
  \<open>Jade Error\<close> is passed on, any other is turned into such a string with the position of
  the node. Slicing a string shorter than ten bytes panics in turn.\<close>

definition recoverVisit :: "SourcePosition option \<Rightarrow> panic \<Rightarrow> panic" where
  "recoverVisit pos r =
     (let fmt = (\<lambda>msg. case pos of
                   None \<Rightarrow> nilDeref
                 | Some ps \<Rightarrow>
                     (if length (Filename ps) > 0
                      then PanicString (''Jade Error in <'' @ Filename ps @ ''>: '' @ msg
                             @ '' - Line: '' @ Itoa (LineNum ps) @ '', Column: '' @ Itoa (ColNum ps)
                             @ '', Length: '' @ Itoa (TokenLength ps))
                      else PanicString (''Jade Error: '' @ msg
                             @ '' - Line: '' @ Itoa (LineNum ps) @ '', Column: '' @ Itoa (ColNum ps)
                             @ '', Length: '' @ Itoa (TokenLength ps))))
      in case r of
           PanicString rs \<Rightarrow>
             (if length rs < length ''Jade Error''
              then RuntimeError (''runtime error: slice bounds out of range [:10] with length ''
                                 @ Itoa (int (length rs)))
              else if take (length ''Jade Error'') rs = ''Jade Error'' then r
              else fmt rs)
         | RuntimeError msg \<Rightarrow> fmt msg)"

definition liftP :: "panic + 'a \<Rightarrow> (panic + 'a) option" where
  "liftP r = Some r"

text \<open>The loop of \<open>visitMixinCall\<close> over the parameters of the mixin; \<open>args\<close> are the
  arguments of the call that are left, and running out of them is an index out of
  range.\<close>

fun bindMixinArgs :: "Extern \<Rightarrow> string list \<Rightarrow> string list \<Rightarrow> Compiler \<Rightarrow> panic + Compiler" where
  "bindMixinArgs E [] args c = Inr c"
| "bindMixinArgs E (prm # prms) [] c = Inl (RuntimeError ''runtime error: index out of range'')"
| "bindMixinArgs E (prm # prms) (arg # args) c =
     (case visitRawInterpolation E arg c of
        Inl p \<Rightarrow> Inl p
      | Inr (v, c1) \<Rightarrow> bindMixinArgs E prms args (writeBuf (''{{'' @ prm @ '' := '' @ v @ ''}}'') c1))"

fun visitNode ::
  "(addr option \<Rightarrow> Compiler \<Rightarrow> (panic + Compiler) option) \<Rightarrow> Extern \<Rightarrow> heap \<Rightarrow> Node \<Rightarrow> Compiler
     \<Rightarrow> (panic + Compiler) option"
where
  "visitNode vb E H (Block a) c = vb (Some a) c"
| "visitNode vb E H (Doctype ps v) c = Some (Inr (writeBuf (DoctypeString E v) c))"
| "visitNode vb E H (Comment ps v silent blk) c =
     (if silent then Some (Inr c)
      else (let c1 = indent 0 False c
            in case blk of
                 None \<Rightarrow> Some (Inr (writeBuf (''{{unescaped '' @ [CHR 0x22] @ ''<!-- ''
                             @ escape v @ '' -->'' @ [CHR 0x22] @ ''}}'') c1))
               | Some a \<Rightarrow>
                   (case vb (Some a) (writeBuf (''<!-- '' @ v) c1) of
                      Some (Inr c2) \<Rightarrow> Some (Inr (writeBuf '' -->'' c2))
                    | r \<Rightarrow> r)))"
| "visitNode vb E H (Tag ps name attrs blk) c =
     (case visitTagOpen E name attrs c of
        Inl p \<Rightarrow> Some (Inl p)
      | Inr c3 \<Rightarrow>
          (if IsSelfClosing E name then Some (Inr (writeBuf '' />'' c3))
           else (let c4 = writeBuf ''>'' c3
                 in case blk of
                      None \<Rightarrow> Some (Inr (writeBuf (''</'' @ name @ ''>'') c4))
                    | Some a \<Rightarrow>
                        (case H a of
                           None \<Rightarrow> Some (Inl nilDeref)
                         | Some b \<Rightarrow>
                             (let inl = CanInline E (Children b);
                                  c5 = (if \<not> inl then c4\<lparr>indentLevel := indentLevel c4 + 1\<rparr> else c4)
                              in case vb (Some a) c5 of
                                   Some (Inr c6) \<Rightarrow>
                                     (let c7 = (if \<not> inl
                                                then indent 0 True (c6\<lparr>indentLevel := indentLevel c6 - 1\<rparr>)
                                                else c6)
                                      in Some (Inr (writeBuf (''</'' @ name @ ''>'') c7)))
                                 | r \<Rightarrow> r)))))"
| "visitNode vb E H (Text ps v raw) c = liftP (visitText E v c)"
| "visitNode vb E H (Condition ps e pos neg) c =
     (case visitRawInterpolation E e c of
        Inl p \<Rightarrow> Some (Inl p)
      | Inr (v, c1) \<Rightarrow>
          (case vb pos (writeBuf (''{{if '' @ v @ ''}}'') c1) of
             Some (Inr c2) \<Rightarrow>
               (case neg of
                  None \<Rightarrow> Some (Inr (writeBuf ''{{end}}'' c2))
                | Some a \<Rightarrow>
                    (case vb (Some a) (writeBuf ''{{else}}'' c2) of
                       Some (Inr c3) \<Rightarrow> Some (Inr (writeBuf ''{{end}}'' c3))
                     | r \<Rightarrow> r))
           | r \<Rightarrow> r))"
| "visitNode vb E H (Each ps e x y blk) c =
     (case blk of
        None \<Rightarrow> Some (Inr c)
      | Some a \<Rightarrow>
          (case visitRawInterpolation E e c of
             Inl p \<Rightarrow> Some (Inl p)
           | Inr (v, c1) \<Rightarrow>
               (let c2 = (if length y = 0
                          then writeBuf (''{{range '' @ x @ '' := '' @ v @ ''}}'') c1
                          else writeBuf (''{{range '' @ x @ '', '' @ y @ '' := '' @ v @ ''}}'') c1)
                in case vb (Some a) c2 of
                     Some (Inr c3) \<Rightarrow> Some (Inr (writeBuf ''{{end}}'' c3))
                   | r \<Rightarrow> r)))"
| "visitNode vb E H (Buffered ps e escaped) c =
     (case visitRawInterpolation E e c of
        Inl p \<Rightarrow> Some (Inl p)
      | Inr (v, c1) \<Rightarrow>
          (if escaped then Some (Inr (writeBuf (''{{'' @ v @ ''}}'') c1))
           else Some (Inr (writeBuf (''{{unescaped '' @ v @ ''}}'') c1))))"
| "visitNode vb E H (Assignment ps x e) c =
     (case visitRawInterpolation E e c of
        Inl p \<Rightarrow> Some (Inl p)
      | Inr (v, c1) \<Rightarrow> Some (Inr (writeBuf (''{{'' @ x @ '' := '' @ v @ ''}}'') c1)))"
| "visitNode vb E H (Mixin ps name prms blk) c =
     Some (Inr (c\<lparr>mixins := (mixins c)(name \<mapsto> (prms, blk))\<rparr>))"
| "visitNode vb E H (MixinCall ps name args) c =
     (case mixins c name of
        None \<Rightarrow> Some (Inl nilDeref)
      | Some (prms, blk) \<Rightarrow>
          (case bindMixinArgs E prms args c of
             Inl p \<Rightarrow> Some (Inl p)
           | Inr c1 \<Rightarrow> vb blk c1))"

fun visit :: "nat \<Rightarrow> Extern \<Rightarrow> heap \<Rightarrow> Node \<Rightarrow> Compiler \<Rightarrow> (panic + Compiler) option"
and visitBlock :: "nat \<Rightarrow> Extern \<Rightarrow> heap \<Rightarrow> addr option \<Rightarrow> Compiler \<Rightarrow> (panic + Compiler) option"
and visitChildren :: "nat \<Rightarrow> Extern \<Rightarrow> heap \<Rightarrow> bool \<Rightarrow> Node list \<Rightarrow> Compiler \<Rightarrow> (panic + Compiler) option"
where
  "visit 0 E H nd c = None"
| "visit (Suc n) E H nd c =
     (case visitNode (visitBlock n E H) E H nd c of
        None \<Rightarrow> None
      | Some (Inl p) \<Rightarrow> Some (Inl (recoverVisit (Pos H nd) p))
      | Some (Inr c') \<Rightarrow> Some (Inr c'))"
| "visitBlock 0 E H blk c = None"
| "visitBlock (Suc n) E H blk c =
     (case blk of
        None \<Rightarrow> Some (Inl nilDeref)
      | Some a \<Rightarrow>
          (case H a of
             None \<Rightarrow> Some (Inl nilDeref)
           | Some b \<Rightarrow> visitChildren n E H (CanInline E (Children b)) (Children b) c))"
| "visitChildren 0 E H inl nds c = None"
| "visitChildren (Suc n) E H inl [] c = Some (Inr c)"
| "visitChildren (Suc n) E H inl (nd # nds) c =
     (case visit n E H nd
             (case nd of Text _ _ _ \<Rightarrow> if \<not> inl then indent 0 True c else c | _ \<Rightarrow> c) of
        Some (Inr c1) \<Rightarrow> visitChildren (Suc n) E H inl nds c1
      | r \<Rightarrow> r)"

section \<open>The entry points\<close>

text \<open>
  The writer \<open>out\<close> is the sequence of bytes written to it so far; \<open>CompileWriter\<close>
  returns its error (\<open>None\<close> for nil) and the writer, \<open>CompileString\<close> its string and its
  error. A panic that
  \<open>CompileWriter\<close> recovers becomes its error (\<open>Some msg\<close>); the conversion
  \<open>r.(string)\<close> in the deferred function panics itself when the recovered value is not a
  string, and that panic leaves \<open>CompileWriter\<close> (\<open>Inl\<close>).
\<close>

definition CompileWriter ::
  "nat \<Rightarrow> Extern \<Rightarrow> heap \<Rightarrow> Compiler \<Rightarrow> string \<Rightarrow> (panic + (string option \<times> string)) option" where
  "CompileWriter fuel E H c out =
     (let c0 = c\<lparr>buffer := []\<rparr>
      in case (case node c0 of None \<Rightarrow> Some (Inr c0) | Some nd \<Rightarrow> visit fuel E H nd c0) of
           None \<Rightarrow> None
         | Some (Inl (PanicString msg)) \<Rightarrow> Some (Inr (Some msg, out))
         | Some (Inl (RuntimeError msg)) \<Rightarrow>
             Some (Inl (RuntimeError ''interface conversion: interface {} is runtime.Error, not string''))
         | Some (Inr c1) \<Rightarrow>
             (let c2 = (if length (buffer c1) > 0 then writeBuf [CHR 0x0A] c1 else c1)
              in Some (Inr (None, out @ buffer c2))))"

definition CompileString ::
  "nat \<Rightarrow> Extern \<Rightarrow> heap \<Rightarrow> Compiler \<Rightarrow> (panic + (string \<times> string option)) option" where
  "CompileString fuel E H c =
     (case CompileWriter fuel E H c [] of
        None \<Rightarrow> None
      | Some (Inl p) \<Rightarrow> Some (Inl p)
      | Some (Inr (Some err, buf)) \<Rightarrow> Some (Inr ([], Some err))
      | Some (Inr (None, buf)) \<Rightarrow> Some (Inr (buf, None)))"

section \<open>Tokens and the scanner\<close>

datatype tokKind =
    tokEOF | tokDoctype | tokComment | tokIndent | tokOutdent | tokBlank | tokId | tokClassName
  | tokTag | tokText | tokAttribute | tokAttributeList | tokIf | tokElse | tokUnless | tokEach
  | tokAssignment | tokImport | tokNamedBlock | tokExtends | tokMixin | tokMixinCall
  | tokBuffered | tokSemicolon | tokNewLine

text \<open>A token: its kind, its value, its string-keyed side data and, for an attribute
  list, the tokens of the attributes.\<close>

datatype token = Token (Kind: tokKind) (Value: string) (DataMap: "(string \<times> string) list")
  (TokChildren: "token list")

text \<open>\<open>tok.Data[key]\<close>: the empty string when the key is absent.\<close>

definition Data :: "token \<Rightarrow> string \<Rightarrow> string" where
  "Data tok key = (case map_of (DataMap tok) key of None \<Rightarrow> [] | Some v \<Rightarrow> v)"

fun tokenKind2Str :: "tokKind \<Rightarrow> string" where
  "tokenKind2Str tokEOF = ''tokEOF''"
| "tokenKind2Str tokDoctype = ''tokDoctype''"
| "tokenKind2Str tokComment = ''tokComment''"
| "tokenKind2Str tokIndent = ''tokIndent''"
| "tokenKind2Str tokOutdent = ''tokOutdent''"
| "tokenKind2Str tokBlank = ''tokBlank''"
| "tokenKind2Str tokId = ''tokId''"
| "tokenKind2Str tokClassName = ''tokClassName''"
| "tokenKind2Str tokTag = ''tokTag''"
| "tokenKind2Str tokText = ''tokText''"
| "tokenKind2Str tokAttribute = ''tokAttribute''"
| "tokenKind2Str tokAttributeList = ''tokAttributeList''"
| "tokenKind2Str tokIf = ''tokIf''"
| "tokenKind2Str tokElse = ''tokElse''"
| "tokenKind2Str tokUnless = ''tokUnless''"
| "tokenKind2Str tokEach = ''tokEach''"
| "tokenKind2Str tokAssignment = ''tokAssignment''"
| "tokenKind2Str tokImport = ''tokImport''"
| "tokenKind2Str tokNamedBlock = ''tokNamedBlock''"
| "tokenKind2Str tokExtends = ''tokExtends''"
| "tokenKind2Str tokMixin = ''tokMixin''"
| "tokenKind2Str tokMixinCall = ''tokMixinCall''"
| "tokenKind2Str tokBuffered = ''tokBuffered''"
| "tokenKind2Str tokSemicolon = ''tokSemicolon''"
| "tokenKind2Str tokNewLine = ''tokNewLine''"

text \<open>
  Modelled from the spec: the tokenizer of \<open>parser/scanner.go\<close>, which is not among the
  sources. By its contract it produces a finite stream of tokens; here the stream is
  given with the position that the scanner reports after each token. \<open>Next\<close> takes
  the first token of the stream and is \<open>None\<close> (Go's nil) once the stream is used up;
  \<open>readRaw\<close> is the raw-mode flag that the parser sets.
\<close>

record Scanner =
  stream :: "(token \<times> SourcePosition) list"
  readRaw :: bool
  spos :: SourcePosition

definition newScanner :: "(token \<times> SourcePosition) list \<Rightarrow> Scanner" where
  "newScanner toks = \<lparr>stream = toks, readRaw = False, spos = zeroPos\<rparr>"

definition Next :: "Scanner \<Rightarrow> token option \<times> Scanner" where
  "Next s = (case stream s of
               [] \<Rightarrow> (None, s)
             | (t, ps) # rest \<Rightarrow> (Some t, s\<lparr>stream := rest, spos := ps\<rparr>))"

section \<open>The parser state\<close>

datatype Modifier = NamedBlockDefault | NamedBlockAppend | NamedBlockPrepend

text \<open>A \<open>NamedBlock\<close> embeds its \<open>Block\<close>: \<open>nbBlock\<close> is the address of that block, which
  is also what \<open>&block.Block\<close> is.\<close>

record NamedBlock =
  nbName :: string
  nbModifier :: Modifier
  nbBlock :: addr

datatype Parser = Parser (scanner: Scanner) (filename: string) (currenttoken: "token option")
  (namedBlocks: "(string \<times> NamedBlock) list") (parent: "Parser option") (result: "addr option")

definition set_scanner :: "Scanner \<Rightarrow> Parser \<Rightarrow> Parser" where
  "set_scanner s p = Parser s (filename p) (currenttoken p) (namedBlocks p) (parent p) (result p)"

definition set_currenttoken :: "token option \<Rightarrow> Parser \<Rightarrow> Parser" where
  "set_currenttoken t p = Parser (scanner p) (filename p) t (namedBlocks p) (parent p) (result p)"

definition set_namedBlocks :: "(string \<times> NamedBlock) list \<Rightarrow> Parser \<Rightarrow> Parser" where
  "set_namedBlocks nb p = Parser (scanner p) (filename p) (currenttoken p) nb (parent p) (result p)"

definition set_parent :: "Parser option \<Rightarrow> Parser \<Rightarrow> Parser" where
  "set_parent q p = Parser (scanner p) (filename p) (currenttoken p) (namedBlocks p) q (result p)"

definition set_result :: "addr option \<Rightarrow> Parser \<Rightarrow> Parser" where
  "set_result r p = Parser (scanner p) (filename p) (currenttoken p) (namedBlocks p) (parent p) r"

text \<open>The heap of blocks and the next free address.\<close>

record World =
  blocks :: heap
  nextAddr :: addr

text \<open>
  What the parser uses from outside \<open>parser.go\<close>, as parameters: reading and tokenizing
  a file (\<open>Inl\<close> the text of the I/O error); joining a target to the directory of the
  current file and the base name of a path (\<open>path.Convert\<close> with \<open>filepath.Dir\<close>,
  \<open>filepath.Join\<close>, \<open>filepath.Base\<close>); \<open>Tag.IsRawText\<close> and the splitting of the
  argument string of a mixin (nodes.go); the stack trace that \<open>Parse\<close> appends to a
  message; the order in which \<open>range\<close> enumerates the names of a table.
\<close>

record PEnv =
  readFile :: "string \<Rightarrow> string + (token \<times> SourcePosition) list"
  joinRelative :: "string \<Rightarrow> string \<Rightarrow> string"
  baseName :: "string \<Rightarrow> string"
  IsRawText :: "string \<Rightarrow> bool"
  splitArgs :: "string \<Rightarrow> string list"
  stackTrace :: string
  rangeNames :: "string list \<Rightarrow> string list"

text \<open>The result of a parsing function: \<open>None\<close> when the fuel runs out, \<open>Some (Inl (p, pos))\<close>
  for the panic \<open>p\<close> raised while the scanner of the parser at work stood at \<open>pos\<close>,
  \<open>Some (Inr (x, W, p))\<close> for the value \<open>x\<close> with the new heap and parser.\<close>

type_synonym 'a pres = "((panic \<times> SourcePosition) + ('a \<times> World \<times> Parser)) option"

definition ppos :: "Parser \<Rightarrow> SourcePosition" where
  "ppos p = (spos (scanner p))\<lparr>Filename := filename p\<rparr>"

definition ret :: "'a \<Rightarrow> World \<Rightarrow> Parser \<Rightarrow> 'a pres" where
  "ret x W p = Some (Inr (x, W, p))"

definition raise :: "string \<Rightarrow> Parser \<Rightarrow> 'a pres" where
  "raise msg p = Some (Inl (PanicString msg, ppos p))"

definition raiseNil :: "Parser \<Rightarrow> 'a pres" where
  "raiseNil p = Some (Inl (nilDeref, ppos p))"

definition bindP :: "'a pres \<Rightarrow> ('a \<Rightarrow> World \<Rightarrow> Parser \<Rightarrow> 'b pres) \<Rightarrow> 'b pres" where
  "bindP m f = (case m of
                  None \<Rightarrow> None
                | Some (Inl e) \<Rightarrow> Some (Inl e)
                | Some (Inr (x, W, p)) \<Rightarrow> f x W p)"

text \<open>\<open>p.currenttoken.Kind\<close> and the like: a nil token is a nil dereference.\<close>

definition withTok :: "Parser \<Rightarrow> (token \<Rightarrow> 'a pres) \<Rightarrow> 'a pres" where
  "withTok p f = (case currenttoken p of None \<Rightarrow> raiseNil p | Some t \<Rightarrow> f t)"

section \<open>Blocks\<close>

text \<open>
  Modelled from the spec: \<open>newBlock\<close>, \<open>Block.push\<close> and \<open>Block.pushFront\<close> of nodes.go
  (a block is an ordered sequence of nodes; \<open>push\<close> adds a node at the end and
  \<open>pushFront\<close> at the front). Every address the parser uses comes from \<open>newBlock\<close>.
\<close>

definition newBlock :: "World \<Rightarrow> addr \<times> World" where
  "newBlock W =
     (nextAddr W,
      W\<lparr>blocks := (blocks W)(nextAddr W \<mapsto> \<lparr>bPos = zeroPos, Children = []\<rparr>),
        nextAddr := Suc (nextAddr W)\<rparr>)"

definition updBlock :: "addr \<Rightarrow> (BlockObj \<Rightarrow> BlockObj) \<Rightarrow> World \<Rightarrow> World" where
  "updBlock a f W = W\<lparr>blocks := (blocks W)(a := map_option f (blocks W a))\<rparr>"

definition push :: "addr \<Rightarrow> Node \<Rightarrow> World \<Rightarrow> World" where
  "push a nd W = updBlock a (\<lambda>b. b\<lparr>Children := Children b @ [nd]\<rparr>) W"

definition pushFront :: "addr \<Rightarrow> Node \<Rightarrow> World \<Rightarrow> World" where
  "pushFront a nd W = updBlock a (\<lambda>b. b\<lparr>Children := nd # Children b\<rparr>) W"

definition setPos :: "addr \<Rightarrow> SourcePosition \<Rightarrow> World \<Rightarrow> World" where
  "setPos a ps W = updBlock a (\<lambda>b. b\<lparr>bPos := ps\<rparr>) W"

definition childrenOf :: "World \<Rightarrow> addr \<Rightarrow> Node list" where
  "childrenOf W a = (case blocks W a of None \<Rightarrow> [] | Some b \<Rightarrow> Children b)"

section \<open>The parser\<close>

definition advance :: "Parser \<Rightarrow> Parser" where
  "advance p = (let (t, s) = Next (scanner p) in set_currenttoken t (set_scanner s p))"

definition expect :: "tokKind \<Rightarrow> World \<Rightarrow> Parser \<Rightarrow> token pres" where
  "expect typ W p =
     withTok p (\<lambda>t.
       if Kind t \<noteq> typ
       then raise (''Unexpected token: '' @ tokenKind2Str (Kind t) @ '', expected: '' @ tokenKind2Str typ) p
       else ret t W (advance p))"

definition expectOneOf :: "tokKind \<Rightarrow> tokKind \<Rightarrow> World \<Rightarrow> Parser \<Rightarrow> token pres" where
  "expectOneOf typ typ2 W p =
     withTok p (\<lambda>t.
       if Kind t \<noteq> typ \<and> Kind t \<noteq> typ2
       then raise (''Unexpected token: '' @ tokenKind2Str (Kind t) @ '', expected: '' @ tokenKind2Str typ
                   @ '' or '' @ tokenKind2Str typ2) p
       else ret t W (advance p))"

definition newParser :: "(token \<times> SourcePosition) list \<Rightarrow> Parser" where
  "newParser toks = Parser (newScanner toks) [] None [] None None"

definition parseRelativeFile :: "PEnv \<Rightarrow> string \<Rightarrow> World \<Rightarrow> Parser \<Rightarrow> Parser pres" where
  "parseRelativeFile E target W p =
     (if length (filename p) = 0
      then raise (''Unable to import or extend '' @ target @ '' in a non filesystem based parser.'') p
      else (let f1 = joinRelative E (filename p) target;
                f2 = (if CHR ''.'' \<notin> set (baseName E f1) then f1 @ ''.jade'' else f1)
            in case readFile E f2 of
                 Inl err \<Rightarrow> raise (''Unable to read '' @ f2 @ '', Error: '' @ err) p
               | Inr toks \<Rightarrow> Some (Inr (Parser (newScanner toks) f2 None [] None None, W, p))))"

definition parseDoctype :: "World \<Rightarrow> Parser \<Rightarrow> Node pres" where
  "parseDoctype W p = bindP (expect tokDoctype W p) (\<lambda>tok W p. ret (Doctype (ppos p) (Value tok)) W p)"

definition parseText :: "World \<Rightarrow> Parser \<Rightarrow> Node pres" where
  "parseText W p =
     bindP (expect tokText W p) (\<lambda>tok W p. ret (Text (ppos p) (Value tok) (Data tok ''Mode'' = ''raw'')) W p)"

definition parseBuffered :: "World \<Rightarrow> Parser \<Rightarrow> Node pres" where
  "parseBuffered W p =
     bindP (expect tokBuffered W p)
       (\<lambda>tok W p. ret (Buffered (ppos p) (Value tok) (Data tok ''Mode'' = ''escaped'')) W p)"

definition parseAssignment :: "World \<Rightarrow> Parser \<Rightarrow> Node pres" where
  "parseAssignment W p =
     bindP (expect tokAssignment W p) (\<lambda>tok W p. ret (Assignment (ppos p) (Data tok ''X'') (Value tok)) W p)"

definition parseMixinCall :: "PEnv \<Rightarrow> World \<Rightarrow> Parser \<Rightarrow> Node pres" where
  "parseMixinCall E W p =
     bindP (expect tokMixinCall W p)
       (\<lambda>tok W p. ret (MixinCall (ppos p) (Value tok) (splitArgs E (Data tok ''Args''))) W p)"

text \<open>
  In the functions below \<open>bl\<close> stands for the loop of \<open>parseBlock\<close>, \<open>pb\<close> for
  \<open>parseBlock\<close>, \<open>tgl\<close> for the \<open>readmore\<close> loop of \<open>parseTagReal\<close>, \<open>il\<close> and \<open>ul\<close> for the
  \<open>readmore\<close> loops of \<open>parseIf\<close> and \<open>parseUnless\<close>, and \<open>pP\<close> for \<open>Parse\<close> on another
  parser. \<open>parseBlock\<close> gets the parent node and returns it with the attributes that the
  block has added to a parent tag.
\<close>

definition parseBlock ::
  "(addr \<Rightarrow> Node option \<Rightarrow> World \<Rightarrow> Parser \<Rightarrow> (Node option) pres) \<Rightarrow> Node option \<Rightarrow> World \<Rightarrow> Parser
     \<Rightarrow> (addr \<times> Node option) pres" where
  "parseBlock bl par W p =
     bindP (expectOneOf tokIndent tokSemicolon W p) (\<lambda>_ W p.
       let (a, W1) = newBlock W;
           W2 = setPos a (ppos p) W1
       in bindP (bl a par W2 p) (\<lambda>par' W p.
            bindP (expectOneOf tokOutdent tokEOF W p) (\<lambda>_ W p. ret (a, par') W p)))"

definition parseComment ::
  "(Node option \<Rightarrow> World \<Rightarrow> Parser \<Rightarrow> (addr \<times> Node option) pres) \<Rightarrow> World \<Rightarrow> Parser \<Rightarrow> Node pres" where
  "parseComment pb W p =
     bindP (expect tokComment W p) (\<lambda>tok W p.
       let ps = ppos p;
           cmnt = Comment ps (Value tok) (Data tok ''Mode'' = ''silent'') None
       in withTok p (\<lambda>t.
            if Kind t = tokIndent
            then bindP (pb (Some cmnt) W p) (\<lambda>(a, _) W p.
                   ret (Comment ps (Value tok) (Data tok ''Mode'' = ''silent'') (Some a)) W p)
            else ret cmnt W p))"

definition parseEach ::
  "(Node option \<Rightarrow> World \<Rightarrow> Parser \<Rightarrow> (addr \<times> Node option) pres) \<Rightarrow> World \<Rightarrow> Parser \<Rightarrow> Node pres" where
  "parseEach pb W p =
     bindP (expect tokEach W p) (\<lambda>tok W p.
       let ps = ppos p;
           ech = Each ps (Value tok) (Data tok ''X'') (Data tok ''Y'') None
       in withTok p (\<lambda>t.
            if Kind t = tokIndent
            then bindP (pb (Some ech) W p) (\<lambda>(a, _) W p.
                   ret (Each ps (Value tok) (Data tok ''X'') (Data tok ''Y'') (Some a)) W p)
            else ret ech W p))"

definition parseMixin ::
  "PEnv \<Rightarrow> (Node option \<Rightarrow> World \<Rightarrow> Parser \<Rightarrow> (addr \<times> Node option) pres) \<Rightarrow> World \<Rightarrow> Parser \<Rightarrow> Node pres" where
  "parseMixin E pb W p =
     bindP (expect tokMixin W p) (\<lambda>tok W p.
       let ps = ppos p;
           mixin = Mixin ps (Value tok) (splitArgs E (Data tok ''Args'')) None
       in withTok p (\<lambda>t.
            if Kind t = tokIndent
            then bindP (pb (Some mixin) W p) (\<lambda>(a, _) W p.
                   ret (Mixin ps (Value tok) (splitArgs E (Data tok ''Args'')) (Some a)) W p)
            else ret mixin W p))"

definition parseNamedBlock ::
  "(Node option \<Rightarrow> World \<Rightarrow> Parser \<Rightarrow> (addr \<times> Node option) pres) \<Rightarrow> World \<Rightarrow> Parser \<Rightarrow> Node pres" where
  "parseNamedBlock pb W p =
     bindP (expect tokNamedBlock W p) (\<lambda>tok W p.
       if map_of (namedBlocks p) (Value tok) \<noteq> None
       then raise (''Multiple definitions of named blocks are not permitted. Block '' @ Value tok
                   @ '' has been re defined.'') p
       else
         (let (a, W1) = newBlock W;
              W2 = setPos a (ppos p) W1;
              modifier = (if Data tok ''Modifier'' = ''append'' then NamedBlockAppend
                          else if Data tok ''Modifier'' = ''prepend'' then NamedBlockPrepend
                          else NamedBlockDefault);
              block = \<lparr>nbName = Value tok, nbModifier = modifier, nbBlock = a\<rparr>;
              finish = (\<lambda>W p.
                 let p1 = set_namedBlocks (AList.update (nbName block) block (namedBlocks p)) p
                 in if modifier = NamedBlockDefault then ret (Block a) W p1
                    else (let (b, W') = newBlock W in ret (Block b) W' p1))
          in withTok p (\<lambda>t.
               if Kind t = tokIndent
               then bindP (pb None W2 p) (\<lambda>(b, _) W p.
                      finish (W\<lparr>blocks := (blocks W)(a := blocks W b)\<rparr>) p)
               else finish W2 p)))"

definition parseImport ::
  "PEnv \<Rightarrow> (World \<Rightarrow> Parser \<Rightarrow> (addr option) pres) \<Rightarrow> World \<Rightarrow> Parser \<Rightarrow> Node pres" where
  "parseImport E pP W p =
     bindP (expect tokImport W p) (\<lambda>tok W p.
       bindP (parseRelativeFile E (Value tok) W p) (\<lambda>q W p.
         case pP W q of
           None \<Rightarrow> None
         | Some (Inl (e, _)) \<Rightarrow> Some (Inl (e, ppos p))
         | Some (Inr (nd, W', q')) \<Rightarrow>
             (case nd of
                None \<Rightarrow> raiseNil p
              | Some a \<Rightarrow> ret (Block a) (setPos a (ppos p) W') p)))"

definition parseExtends ::
  "PEnv \<Rightarrow> (World \<Rightarrow> Parser \<Rightarrow> (addr option) pres) \<Rightarrow> World \<Rightarrow> Parser \<Rightarrow> Node pres" where
  "parseExtends E pP W p =
     (if parent p \<noteq> None then raise ''Unable to extend multiple parent templates.'' p
      else
        bindP (expect tokExtends W p) (\<lambda>tok W p.
          bindP (parseRelativeFile E (Value tok) W p) (\<lambda>q W p.
            case pP W q of
              None \<Rightarrow> None
            | Some (Inl (e, _)) \<Rightarrow> Some (Inl (e, ppos p))
            | Some (Inr (_, W', q')) \<Rightarrow>
                (let (a, W'') = newBlock W' in ret (Block a) W'' (set_parent (Some q') p)))))"

text \<open>The tag under construction: its position, name, attributes and block.\<close>

type_synonym tagrec = "SourcePosition \<times> string \<times> Attribute list \<times> addr option"

definition tagNode :: "tagrec \<Rightarrow> Node" where
  "tagNode tg = (case tg of (ps, name, attrs, blk) \<Rightarrow> Tag ps name attrs blk)"

definition addAttr :: "Attribute \<Rightarrow> tagrec \<Rightarrow> tagrec" where
  "addAttr a tg = (case tg of (ps, name, attrs, blk) \<Rightarrow> (ps, name, attrs @ [a], blk))"

definition parseTag :: "(tagrec \<Rightarrow> World \<Rightarrow> Parser \<Rightarrow> Node pres) \<Rightarrow> World \<Rightarrow> Parser \<Rightarrow> Node pres" where
  "parseTag tgl W p =
     bindP (expect tokTag W p) (\<lambda>tok W p. tgl (ppos p, Value tok, [], None) W p)"

definition parseTaglessClass :: "(tagrec \<Rightarrow> World \<Rightarrow> Parser \<Rightarrow> Node pres) \<Rightarrow> World \<Rightarrow> Parser \<Rightarrow> Node pres" where
  "parseTaglessClass tgl W p =
     bindP (expect tokClassName W p) (\<lambda>tok W p.
       tgl (ppos p, ''div'',
           [\<lparr>aPos = ppos p, aName = ''class'', aValue = Value tok, IsRaw = True, aCondition = []\<rparr>], None) W p)"

definition parseTaglessId :: "(tagrec \<Rightarrow> World \<Rightarrow> Parser \<Rightarrow> Node pres) \<Rightarrow> World \<Rightarrow> Parser \<Rightarrow> Node pres" where
  "parseTaglessId tgl W p =
     bindP (expect tokId W p) (\<lambda>tok W p.
       tgl (ppos p, ''div'',
           [\<lparr>aPos = ppos p, aName = ''id'', aValue = Value tok, IsRaw = True, aCondition = []\<rparr>], None) W p)"

definition parseIf ::
  "(SourcePosition \<times> string \<times> addr option \<times> addr option \<Rightarrow> World \<Rightarrow> Parser \<Rightarrow> Node pres)
     \<Rightarrow> World \<Rightarrow> Parser \<Rightarrow> Node pres" where
  "parseIf il W p =
     bindP (expect tokIf W p) (\<lambda>tok W p. il (ppos p, Value tok, None, None) W p)"

definition parseUnless ::
  "(SourcePosition \<times> string \<times> addr option \<times> addr option \<Rightarrow> World \<Rightarrow> Parser \<Rightarrow> Node pres)
     \<Rightarrow> World \<Rightarrow> Parser \<Rightarrow> Node pres" where
  "parseUnless ul W p =
     bindP (expect tokUnless W p) (\<lambda>tok W p. ul (ppos p, ''!('' @ Value tok @ '')'', None, None) W p)"

definition condNode :: "SourcePosition \<times> string \<times> addr option \<times> addr option \<Rightarrow> Node" where
  "condNode cnd = (case cnd of (ps, e, pos, neg) \<Rightarrow> Condition ps e pos neg)"

section \<open>The merge of template inheritance\<close>

text \<open>
  The three branches of the switch on \<open>ours.Modifier\<close>. The first loop reads
  \<open>len(ours.Children)\<close> again in every round, so it does not end when \<open>prev\<close> and \<open>ours\<close>
  are the same block with a child; the second takes the length once and reads
  \<open>ours.Children[i]\<close> in every round.
\<close>

definition appendChildren :: "addr \<Rightarrow> addr \<Rightarrow> World \<Rightarrow> World option" where
  "appendChildren prev ours W =
     (if prev = ours \<and> childrenOf W ours \<noteq> [] then None
      else Some (fold (push prev) (childrenOf W ours) W))"

fun prependFrom :: "nat \<Rightarrow> addr \<Rightarrow> addr \<Rightarrow> World \<Rightarrow> World" where
  "prependFrom 0 prev ours W = W"
| "prependFrom (Suc i) prev ours W = prependFrom i prev ours (pushFront prev (childrenOf W ours ! i) W)"

definition mergeOne :: "NamedBlock \<Rightarrow> NamedBlock option \<Rightarrow> World \<Rightarrow> World option" where
  "mergeOne prev ours W =
     (case ours of
        None \<Rightarrow> Some W
      | Some us \<Rightarrow>
          (case nbModifier us of
             NamedBlockAppend \<Rightarrow> appendChildren (nbBlock prev) (nbBlock us) W
           | NamedBlockPrepend \<Rightarrow>
               Some (prependFrom (length (childrenOf W (nbBlock us))) (nbBlock prev) (nbBlock us) W)
           | NamedBlockDefault \<Rightarrow>
               Some (updBlock (nbBlock prev) (\<lambda>b. b\<lparr>Children := childrenOf W (nbBlock us)\<rparr>) W)))"

text \<open>The loop \<open>for _, prev := range p.parent.namedBlocks\<close> over the entries \<open>prevs\<close> of
  the parent's table, in the order in which they are enumerated.\<close>

fun mergeNamedBlocks :: "NamedBlock list \<Rightarrow> (string \<times> NamedBlock) list \<Rightarrow> World \<Rightarrow> World option" where
  "mergeNamedBlocks [] ours W = Some W"
| "mergeNamedBlocks (prev # prevs) ours W =
     (case mergeOne prev (map_of ours (nbName prev)) W of
        None \<Rightarrow> None
      | Some W1 \<Rightarrow> mergeNamedBlocks prevs ours W1)"

definition rangeNamedBlocks :: "PEnv \<Rightarrow> (string \<times> NamedBlock) list \<Rightarrow> NamedBlock list" where
  "rangeNamedBlocks E tbl =
     concat (map (\<lambda>k. case map_of tbl k of None \<Rightarrow> [] | Some b \<Rightarrow> [b]) (rangeNames E (map fst tbl)))"

text \<open>The deferred function of \<open>Parse\<close>.\<close>

definition recoverParse :: "PEnv \<Rightarrow> 'a pres \<Rightarrow> 'a pres" where
  "recoverParse E r =
     (case r of
        Some (Inl (e, ps)) \<Rightarrow>
          (let fmt = (\<lambda>msg.
                 if length (Filename ps) > 0
                 then PanicString (''Jade Error in <'' @ Filename ps @ ''>: '' @ msg
                        @ '' - Line: '' @ Itoa (LineNum ps) @ '', Column: '' @ Itoa (ColNum ps)
                        @ '', Length: '' @ Itoa (TokenLength ps))
                 else PanicString (''Jade Error: '' @ msg
                        @ '' - Line: '' @ Itoa (LineNum ps) @ '', Column: '' @ Itoa (ColNum ps)
                        @ '', Length: '' @ Itoa (TokenLength ps) @ [CHR 0x0A] @ stackTrace E))
           in Some (Inl ((case e of
                PanicString rs \<Rightarrow>
                  (if length rs < length ''Jade Error''
                   then RuntimeError (''runtime error: slice bounds out of range [:10] with length ''
                                      @ Itoa (int (length rs)))
                   else if take (length ''Jade Error'') rs = ''Jade Error'' then e
                   else fmt rs)
              | RuntimeError msg \<Rightarrow> fmt msg), ps)))
      | _ \<Rightarrow> r)"

text \<open>
  The recursive part of the parser. The functions call each other, and \<open>Parse\<close> calls
  itself on the parsers of other files, so they take fuel: one unit per call and per round
  of a loop; \<open>None\<close> is "the fuel ran out" (or the first loop of the merge does not end).
  Each function is given by its body, in which \<open>rc\<close> holds the functions with one unit of
  fuel less; \<open>parserAt\<close> ties them together. \<open>Parse\<close> returns Go's \<open>*Block\<close>: an address,
  or \<open>None\<close> for nil.
\<close>

record Calls =
  cParse :: "World \<Rightarrow> Parser \<Rightarrow> (addr option) pres"
  ctopLoop :: "addr \<Rightarrow> World \<Rightarrow> Parser \<Rightarrow> unit pres"
  cparse :: "World \<Rightarrow> Parser \<Rightarrow> Node pres"
  cblockLoop :: "addr \<Rightarrow> Node option \<Rightarrow> World \<Rightarrow> Parser \<Rightarrow> (Node option) pres"
  cifLoop :: "SourcePosition \<times> string \<times> addr option \<times> addr option \<Rightarrow> World \<Rightarrow> Parser \<Rightarrow> Node pres"
  cunlessLoop :: "SourcePosition \<times> string \<times> addr option \<times> addr option \<Rightarrow> World \<Rightarrow> Parser \<Rightarrow> Node pres"
  ctagLoop :: "tagrec \<Rightarrow> World \<Rightarrow> Parser \<Rightarrow> Node pres"

definition Parse_body ::
  "PEnv \<Rightarrow> Calls \<Rightarrow> World \<Rightarrow> Parser \<Rightarrow> (addr option) pres" where
  "Parse_body E rc W p =
     (if result p \<noteq> None then ret (result p) W p
      else recoverParse E
        (let (a, W1) = newBlock W;
             p1 = advance p
         in bindP (ctopLoop rc a W1 p1) (\<lambda>_ W p.
              case parent p of
                None \<Rightarrow> ret (Some a) W (set_result (Some a) p)
              | Some q \<Rightarrow>
                  (case cParse rc W q of
                     None \<Rightarrow> None
                   | Some (Inl (e, _)) \<Rightarrow> Some (Inl (e, ppos p))
                   | Some (Inr (_, W', q')) \<Rightarrow>
                       (case mergeNamedBlocks (rangeNamedBlocks E (namedBlocks q')) (namedBlocks p) W' of
                          None \<Rightarrow> None
                        | Some W'' \<Rightarrow>
                            ret (result q') W'' (set_result (result q') (set_parent (Some q') p)))))))"

definition topLoop_body ::
  "Calls \<Rightarrow> addr \<Rightarrow> World \<Rightarrow> Parser \<Rightarrow> unit pres" where
  "topLoop_body rc a W p =
     (case currenttoken p of
        None \<Rightarrow> ret () W p
      | Some t \<Rightarrow>
          if Kind t = tokEOF then ret () W p
          else if Kind t = tokBlank then ctopLoop rc a W (advance p)
          else bindP (cparse rc W p) (\<lambda>nd W p. ctopLoop rc a (push a nd W) p))"

definition parse_body ::
  "PEnv \<Rightarrow> Calls \<Rightarrow> World \<Rightarrow> Parser \<Rightarrow> Node pres" where
  "parse_body E rc W p =
     withTok p (\<lambda>t.
       case Kind t of
         tokDoctype \<Rightarrow> parseDoctype W p
       | tokComment \<Rightarrow> parseComment (parseBlock (cblockLoop rc)) W p
       | tokText \<Rightarrow> parseText W p
       | tokIf \<Rightarrow> parseIf (cifLoop rc) W p
       | tokUnless \<Rightarrow> parseUnless (cunlessLoop rc) W p
       | tokEach \<Rightarrow> parseEach (parseBlock (cblockLoop rc)) W p
       | tokImport \<Rightarrow> parseImport E (cParse rc) W p
       | tokTag \<Rightarrow> parseTag (ctagLoop rc) W p
       | tokClassName \<Rightarrow> parseTaglessClass (ctagLoop rc) W p
       | tokId \<Rightarrow> parseTaglessId (ctagLoop rc) W p
       | tokBuffered \<Rightarrow> parseBuffered W p
       | tokAssignment \<Rightarrow> parseAssignment W p
       | tokNamedBlock \<Rightarrow> parseNamedBlock (parseBlock (cblockLoop rc)) W p
       | tokExtends \<Rightarrow> parseExtends E (cParse rc) W p
       | tokIndent \<Rightarrow>
           bindP (parseBlock (cblockLoop rc) None W p) (\<lambda>(a, _) W p. ret (Block a) W p)
       | tokMixin \<Rightarrow> parseMixin E (parseBlock (cblockLoop rc)) W p
       | tokMixinCall \<Rightarrow> parseMixinCall E W p
       | tokNewLine \<Rightarrow> cparse rc W (advance p)
       | tokOutdent \<Rightarrow> (let (a, W1) = newBlock W in ret (Block a) (setPos a (ppos p) W1) p)
       | _ \<Rightarrow> raise (''Unexpected token: '' @ tokenKind2Str (Kind t)) p)"

definition blockLoop_body ::
  "Calls \<Rightarrow> addr \<Rightarrow> Node option \<Rightarrow> World \<Rightarrow> Parser \<Rightarrow> (Node option) pres" where
  "blockLoop_body rc a par W p =
     (case currenttoken p of
        None \<Rightarrow> ret par W p
      | Some t \<Rightarrow>
          if Kind t = tokEOF \<or> Kind t = tokOutdent then ret par W p
          else if Kind t = tokBlank then cblockLoop rc a par W (advance p)
          else if Kind t = tokAttribute then
            (case par of
               Some (Tag ps name attrs blk) \<Rightarrow>
                 bindP (expect (Kind t) W p) (\<lambda>attr W p.
                   cblockLoop rc a
                     (Some (Tag ps name
                        (attrs @ [\<lparr>aPos = ppos p, aName = Value attr, aValue = Data attr ''Content'',
                                   IsRaw = (Data attr ''Mode'' = ''raw''),
                                   aCondition = Data attr ''Condition''\<rparr>]) blk)) W p)
             | _ \<Rightarrow> raise ''Conditional attributes must be placed immediately within a parent tag.'' p)
          else bindP (cparse rc W p) (\<lambda>nd W p. cblockLoop rc a par (push a nd W) p))"

definition ifLoop_body ::
  "Calls \<Rightarrow> SourcePosition \<times> string \<times> addr option \<times> addr option \<Rightarrow> World \<Rightarrow> Parser \<Rightarrow> Node pres" where
  "ifLoop_body rc cnd W p =
     withTok p (\<lambda>t.
       case cnd of (ps, e, pos, neg) \<Rightarrow>
         if Kind t = tokIndent then
           bindP (parseBlock (cblockLoop rc) (Some (condNode cnd)) W p) (\<lambda>(a, _) W p.
             cifLoop rc (ps, e, Some a, neg) W p)
         else if Kind t = tokElse then
           bindP (expect tokElse W p) (\<lambda>_ W p.
             withTok p (\<lambda>t.
               if Kind t = tokIf then
                 (let (a, W1) = newBlock W
                  in bindP (parseIf (cifLoop rc) W1 p) (\<lambda>c W p.
                       cifLoop rc (ps, e, pos, Some a) (push a c W) p))
               else if Kind t = tokIndent then
                 bindP (parseBlock (cblockLoop rc) (Some (condNode cnd)) W p) (\<lambda>(a, _) W p.
                   cifLoop rc (ps, e, pos, Some a) W p)
               else raise (''Unexpected token: '' @ tokenKind2Str (Kind t)) p))
         else ret (condNode cnd) W p)"

definition unlessLoop_body ::
  "Calls \<Rightarrow> SourcePosition \<times> string \<times> addr option \<times> addr option \<Rightarrow> World \<Rightarrow> Parser \<Rightarrow> Node pres" where
  "unlessLoop_body rc cnd W p =
     withTok p (\<lambda>t.
       case cnd of (ps, e, pos, neg) \<Rightarrow>
         if Kind t = tokIndent then
           bindP (parseBlock (cblockLoop rc) (Some (condNode cnd)) W p) (\<lambda>(a, _) W p.
             cunlessLoop rc (ps, e, Some a, neg) W p)
         else ret (condNode cnd) W p)"

definition tagLoop_body ::
  "PEnv \<Rightarrow> Calls \<Rightarrow> tagrec \<Rightarrow> World \<Rightarrow> Parser \<Rightarrow> Node pres" where
  "tagLoop_body E rc tg W p =
     withTok p (\<lambda>t.
       case tg of (ps, name, attrs, blk) \<Rightarrow>
         (case Kind t of
            tokIndent \<Rightarrow>
              (let p1 = (if IsRawText E name then set_scanner ((scanner p)\<lparr>readRaw := True\<rparr>) p else p)
               in bindP (parseBlock (cblockLoop rc) (Some (tagNode tg)) W p1) (\<lambda>(a, par') W p.
                    let attrs' = (case par' of Some (Tag _ _ as _) \<Rightarrow> as | _ \<Rightarrow> attrs)
                    in case blk of
                         None \<Rightarrow> ret (Tag ps name attrs' (Some a)) W p
                       | Some b \<Rightarrow> ret (Tag ps name attrs' blk) (fold (push b) (childrenOf W a) W) p))
          | tokSemicolon \<Rightarrow>
              (let (a, W1) = newBlock W;
                   W2 = setPos a (ppos p) W1;
                   blk' = (if blk = None then Some a else blk);
                   p1 = advance p
               in withTok p1 (\<lambda>t1.
                    case Kind t1 of
                      tokId \<Rightarrow> bindP (parseTaglessId (ctagLoop rc) W2 p1) (\<lambda>inner W p.
                                  ret (Tag ps name attrs blk') (push a inner W) p)
                    | tokClassName \<Rightarrow> bindP (parseTaglessClass (ctagLoop rc) W2 p1) (\<lambda>inner W p.
                                  ret (Tag ps name attrs blk') (push a inner W) p)
                    | tokTag \<Rightarrow> bindP (parseTag (ctagLoop rc) W2 p1) (\<lambda>inner W p.
                                  ret (Tag ps name attrs blk') (push a inner W) p)
                    | _ \<Rightarrow> ret (Tag ps name attrs blk') W2 p1))
          | tokId \<Rightarrow>
              bindP (expect tokId W p) (\<lambda>id W p.
                if length (Data id ''Condition'') > 0
                then raise ''Conditional attributes must be placed in a block within a tag.'' p
                else ctagLoop rc
                       (addAttr \<lparr>aPos = ppos p, aName = ''id'', aValue = Value id, IsRaw = True,
                                 aCondition = []\<rparr> tg) W p)
          | tokClassName \<Rightarrow>
              bindP (expect tokClassName W p) (\<lambda>cls W p.
                if length (Data cls ''Condition'') > 0
                then raise ''Conditional attributes must be placed in a block within a tag.'' p
                else ctagLoop rc
                       (addAttr \<lparr>aPos = ppos p, aName = ''class'', aValue = Value cls, IsRaw = True,
                                 aCondition = []\<rparr> tg) W p)
          | tokAttribute \<Rightarrow>
              bindP (expect tokAttribute W p) (\<lambda>attr W p.
                if length (Data attr ''Condition'') > 0
                then raise ''Conditional attributes must be placed in a block within a tag.'' p
                else ctagLoop rc
                       (addAttr \<lparr>aPos = ppos p, aName = Value attr, aValue = Data attr ''Content'',
                                 IsRaw = (Data attr ''Mode'' = ''raw''), aCondition = []\<rparr> tg) W p)
          | tokAttributeList \<Rightarrow>
              bindP (expect tokAttributeList W p) (\<lambda>attr W p.
                ctagLoop rc
                  (fold (\<lambda>xattr. addAttr \<lparr>aPos = ppos p, aName = Value xattr,
                                            aValue = Data xattr ''Content'',
                                            IsRaw = (Data xattr ''Mode'' = ''raw''), aCondition = []\<rparr>)
                        (TokChildren attr) tg) W p)
          | tokText \<Rightarrow>
              if Data t ''Mode'' \<noteq> ''piped'' then
                (let (b, W1) = (case blk of None \<Rightarrow> newBlock W | Some b \<Rightarrow> (b, W))
                 in bindP (parseText W1 p) (\<lambda>txt W p.
                      ctagLoop rc (ps, name, attrs, Some b) (pushFront b txt W) p))
              else ret (tagNode tg) W p
          | tokBuffered \<Rightarrow>
              (let (b, W1) = (case blk of None \<Rightarrow> newBlock W | Some b \<Rightarrow> (b, W))
               in bindP (parseBuffered W1 p) (\<lambda>buf W p.
                    ctagLoop rc (ps, name, attrs, Some b) (pushFront b buf W) p))
          | _ \<Rightarrow> ret (tagNode tg) W p))"

primrec parserAt :: "nat \<Rightarrow> PEnv \<Rightarrow> Calls" where
  "parserAt 0 E =
     \<lparr>cParse = (\<lambda>W p. None), ctopLoop = (\<lambda>a W p. None), cparse = (\<lambda>W p. None),
      cblockLoop = (\<lambda>a par W p. None), cifLoop = (\<lambda>cnd W p. None),
      cunlessLoop = (\<lambda>cnd W p. None), ctagLoop = (\<lambda>tg W p. None)\<rparr>"
| "parserAt (Suc n) E =
     (let rc = parserAt n E
      in \<lparr>cParse = Parse_body E rc, ctopLoop = topLoop_body rc,
          cparse = parse_body E rc, cblockLoop = blockLoop_body rc,
          cifLoop = ifLoop_body rc, cunlessLoop = unlessLoop_body rc,
          ctagLoop = tagLoop_body E rc\<rparr>)"

definition Parse :: "nat \<Rightarrow> PEnv \<Rightarrow> World \<Rightarrow> Parser \<Rightarrow> (addr option) pres" where
  "Parse n E = cParse (parserAt n E)"

definition parse :: "nat \<Rightarrow> PEnv \<Rightarrow> World \<Rightarrow> Parser \<Rightarrow> Node pres" where
  "parse n E = cparse (parserAt n E)"

section \<open>From a template to its compiled form\<close>

text \<open>
  \<open>New\<close> with the options that \<open>Compile\<close> assigns (the pretty-print toggle and the custom
  functions). \<open>Compiler.Parse\<close> runs the parser on the tokens of the input, under the file
  name \<open>fname\<close> of the compiler, from the heap \<open>W\<close>: a panic of the parser that is a
  string becomes the returned error and leaves \<open>c.node\<close> as it was; otherwise \<open>c.node\<close>
  is the block that \<open>Parse\<close> returns (\<open>Parse\<close> never returns nil, see \<open>Parse_result\<close>).
  \<open>CompileWithTemplate\<close> hands the string of \<open>CompileString\<close> to the template library,
  whose parser is the parameter \<open>templateParse\<close> (\<open>Some\<close> its error); a template is
  represented by its source. \<open>Compile\<close> is the one-call entry: parse, then compile.
\<close>

definition New :: "bool \<Rightarrow> string list \<Rightarrow> Compiler" where
  "New pretty funcs =
     \<lparr>PrettyPrint = pretty, Funcs = funcs, indentLevel = 0, buffer = [], tempvarIndex = 0,
      node = None, mixins = Map.empty\<rparr>"

definition Compiler_Parse ::
  "nat \<Rightarrow> PEnv \<Rightarrow> string \<Rightarrow> (token \<times> SourcePosition) list \<Rightarrow> World \<Rightarrow> Compiler
     \<Rightarrow> (panic + (string option \<times> Compiler \<times> World)) option" where
  "Compiler_Parse fuel PE fname input W c =
     (case Parse fuel PE W (Parser (newScanner input) fname None [] None None) of
        None \<Rightarrow> None
      | Some (Inl (PanicString msg, _)) \<Rightarrow> Some (Inr (Some msg, c, W))
      | Some (Inl (RuntimeError msg, _)) \<Rightarrow>
          Some (Inl (RuntimeError ''interface conversion: interface {} is runtime.Error, not string''))
      | Some (Inr (r, W', p')) \<Rightarrow> Some (Inr (None, c\<lparr>node := map_option Block r\<rparr>, W')))"

definition CompileWithTemplate ::
  "nat \<Rightarrow> Extern \<Rightarrow> (string \<Rightarrow> string option) \<Rightarrow> heap \<Rightarrow> Compiler
     \<Rightarrow> (panic + (string option \<times> string option)) option" where
  "CompileWithTemplate fuel E templateParse H c =
     (case CompileString fuel E H c of
        None \<Rightarrow> None
      | Some (Inl p) \<Rightarrow> Some (Inl p)
      | Some (Inr (src, Some err)) \<Rightarrow> Some (Inr (None, Some err))
      | Some (Inr (src, None)) \<Rightarrow>
          (case templateParse src of
             Some err \<Rightarrow> Some (Inr (None, Some err))
           | None \<Rightarrow> Some (Inr (Some src, None))))"

definition Compile ::
  "nat \<Rightarrow> Extern \<Rightarrow> PEnv \<Rightarrow> (string \<Rightarrow> string option) \<Rightarrow> (token \<times> SourcePosition) list \<Rightarrow> World
     \<Rightarrow> bool \<Rightarrow> string list \<Rightarrow> (panic + (string option \<times> string option)) option" where
  "Compile fuel E PE templateParse input W pretty funcs =
     (case Compiler_Parse fuel PE [] input W (New pretty funcs) of
        None \<Rightarrow> None
      | Some (Inl p) \<Rightarrow> Some (Inl p)
      | Some (Inr (Some err, c, W')) \<Rightarrow> Some (Inr (None, Some err))
      | Some (Inr (None, c, W')) \<Rightarrow> CompileWithTemplate fuel E templateParse (blocks W') c)"



text \<open>A panic whose value can be sliced to the length of \<open>Jade Error\<close> by the deferred
  function of \<open>visit\<close>: a run-time error, or a string of at least ten bytes.\<close>

definition longPanic :: "panic \<Rightarrow> bool" where
  "longPanic p = (case p of PanicString s \<Rightarrow> length ''Jade Error'' \<le> length s | RuntimeError _ \<Rightarrow> True)"


section \<open>Example inputs\<close>

text \<open>
  A concrete environment for the closed instances below. \<open>exampleParseExpr\<close> gives the
  tree that \<open>go/parser.ParseExpr\<close> returns on a handful of inputs and the error on every
  other one (among them the empty string, which Go's parser rejects); the runtime table
  holds the names that \<open>compiler.go\<close> itself emits.
\<close>

definition exampleParseExpr :: "string \<Rightarrow> Expr option" where
  "exampleParseExpr s =
     (if s = ''a'' then Some (Ident ''a'')
      else if s = ''a != 1'' then Some (BinaryExpr (Ident ''a'') NEQ (BasicLit ''1''))
      else if s = ''nil'' then Some (Ident ''nil'')
      else if s = ''click()'' then Some (CallExpr (Ident ''click'') [])
      else if s = ''Active'' then Some (Ident ''Active'')
      else None)"

definition exampleExtern :: Extern where
  "exampleExtern =
     \<lparr>FuncMap = [''__jade_add'', ''__jade_sub'', ''__jade_mul'', ''__jade_quo'', ''__jade_rem'',
                 ''__jade_minus'', ''__jade_plus'', ''__jade_eql'', ''__jade_gtr'', ''__jade_lss'',
                 ''json'', ''unescaped'', ''safeJS''],
      ParseExpr = exampleParseExpr,
      CanInline = (\<lambda>nds. \<forall>nd \<in> set nds. case nd of Text _ _ raw \<Rightarrow> \<not> raw | _ \<Rightarrow> False),
      IsSelfClosing = (\<lambda>name. name \<in> set [''meta'', ''img'', ''link'', ''input'', ''br'', ''hr'']),
      DoctypeString = (\<lambda>v. ''<!DOCTYPE '' @ v @ ''>''),
      rangeOrder = rev\<rparr>"

definition exampleCompiler :: Compiler where
  "exampleCompiler =
     \<lparr>PrettyPrint = False, Funcs = [], indentLevel = 0, buffer = [], tempvarIndex = 0,
      node = None, mixins = Map.empty\<rparr>"

definition onclickAttr :: Attribute where
  "onclickAttr = \<lparr>aPos = zeroPos, aName = ''onclick'', aValue = ''click()'', IsRaw = False, aCondition = []\<rparr>"

definition rawAttr :: "string \<Rightarrow> string \<Rightarrow> string \<Rightarrow> Attribute" where
  "rawAttr name v cond = \<lparr>aPos = zeroPos, aName = name, aValue = v, IsRaw = True, aCondition = cond\<rparr>"

definition exprAttr :: "string \<Rightarrow> string \<Rightarrow> string \<Rightarrow> Attribute" where
  "exprAttr name v cond = \<lparr>aPos = zeroPos, aName = name, aValue = v, IsRaw = False, aCondition = cond\<rparr>"



definition tk :: "tokKind \<Rightarrow> string \<Rightarrow> (string \<times> string) list \<Rightarrow> token \<times> SourcePosition" where
  "tk k v d = (Token k v d [], zeroPos)"

definition examplePEnv :: PEnv where
  "examplePEnv =
     \<lparr>readFile = (\<lambda>f. if f = ''views/layout.jade'' then Inr [tk tokDoctype ''html'' [], tk tokEOF [] []]
                       else Inl (''open '' @ f @ '': no such file or directory'')),
      joinRelative = (\<lambda>cur target. ''views/'' @ target),
      baseName = (\<lambda>f. drop 6 f),
      IsRawText = (\<lambda>name. name = ''script'' \<or> name = ''style''),
      splitArgs = (\<lambda>s. if s = [] then [] else [s]),
      stackTrace = [],
      rangeNames = rev\<rparr>"

definition emptyWorld :: World where
  "emptyWorld = \<lparr>blocks = Map.empty, nextAddr = 0\<rparr>"

definition fileParser :: "string \<Rightarrow> (token \<times> SourcePosition) list \<Rightarrow> Parser" where
  "fileParser name toks = Parser (newScanner toks) name None [] None None"

definition layoutParser :: Parser where
  "layoutParser = fileParser ''views/layout.jade'' [tk tokDoctype ''html'' [], tk tokEOF [] []]"

definition extendsToken :: token where
  "extendsToken = Token tokExtends ''layout'' [] []"

definition pageParser :: Parser where
  "pageParser = Parser \<lparr>stream = [tk tokEOF [] []], readRaw = False, spos = zeroPos\<rparr>
                  ''views/page.jade'' (Some extendsToken) [] None None"

definition extendedParser :: Parser where
  "extendedParser = set_parent (Some layoutParser) pageParser"



definition named :: "string \<Rightarrow> Modifier \<Rightarrow> addr \<Rightarrow> NamedBlock" where
  "named name m a = \<lparr>nbName = name, nbModifier = m, nbBlock = a\<rparr>"



section \<open>Decimal numerals and fresh temporaries\<close>

lemma digits_nonempty: "digits n \<noteq> []"
  by (subst digits.simps) simp

lemma digit_char_inj: "a < 10 \<Longrightarrow> b < 10 \<Longrightarrow> digit_char a = digit_char b \<Longrightarrow> a = b"
proof -
  assume a: "a < 10" and b: "b < 10" and e: "digit_char a = digit_char b"
  have A: "(of_char (digit_char a) :: nat) = 48 + a"
    using a unfolding digit_char_def by simp
  have B: "(of_char (digit_char b) :: nat) = 48 + b"
    using b unfolding digit_char_def by simp
  have "(of_char (digit_char a) :: nat) = of_char (digit_char b)"
    by (rule arg_cong [OF e])
  then have "48 + a = 48 + b"
    by (simp only: A B)
  then show "a = b"
    by (simp only: add_left_cancel)
qed

lemma digits_inj: "digits n = digits m \<Longrightarrow> n = m"
proof (induction n arbitrary: m rule: digits.induct)
  case (1 n)
  show ?case
  proof (cases "n < 10")
    case True
    then have dn: "digits n = [digit_char n]" by (subst digits.simps) simp
    show ?thesis
    proof (cases "m < 10")
      case True
      then have "digits m = [digit_char m]" by (subst digits.simps) simp
      with dn "1.prems" \<open>n < 10\<close> True show ?thesis by (auto dest: digit_char_inj)
    next
      case False
      then have "digits m = digits (m div 10) @ [digit_char (m mod 10)]" by (subst digits.simps) simp
      with dn "1.prems" digits_nonempty [of "m div 10"] show ?thesis by (cases "digits (m div 10)") auto
    qed
  next
    case False
    then have dn: "digits n = digits (n div 10) @ [digit_char (n mod 10)]" by (subst digits.simps) simp
    show ?thesis
    proof (cases "m < 10")
      case True
      then have "digits m = [digit_char m]" by (subst digits.simps) simp
      with dn "1.prems" digits_nonempty [of "n div 10"] show ?thesis by (cases "digits (n div 10)") auto
    next
      case m: False
      then have dm: "digits m = digits (m div 10) @ [digit_char (m mod 10)]" by (subst digits.simps) simp
      from dn dm "1.prems" have e1: "digits (n div 10) = digits (m div 10)"
        and e2: "digit_char (n mod 10) = digit_char (m mod 10)" by auto
      from "1.IH" [OF False e1] have "n div 10 = m div 10" .
      moreover from e2 have "n mod 10 = m mod 10" by (auto dest!: digit_char_inj [rotated 2])
      ultimately show ?thesis by (metis div_mult_mod_eq)
    qed
  qed
qed

lemma Itoa_inj: "0 \<le> i \<Longrightarrow> 0 \<le> j \<Longrightarrow> Itoa i = Itoa j \<Longrightarrow> i = j"
  by (auto simp: Itoa_def dest: digits_inj)

lemma Itoa_1: "Itoa 1 = ''1''"
  by code_simp

lemma Itoa_2: "Itoa 2 = ''2''"
  by code_simp

section \<open>The expression transpiler: comparison operators and identifiers\<close>

lemma execBinary_negated:
  assumes op: "op = NEQ \<or> op = LEQ \<or> op = GEQ"
  shows "execBinary op (c, st) =
           Inr (c\<lparr>buffer := buffer c @ ''{{'' @ (''$__jade_'' @ Itoa (tempvarIndex c + 1)) @ '' := ''
                       @ (if op = NEQ then ''__jade_eql '' else if op = LEQ then ''__jade_gtr '' else ''__jade_lss '')
                       @ fst (pop st) @ '' '' @ fst (pop (snd (pop st))) @ ''}}''
                       @ ''{{'' @ (''$__jade_'' @ Itoa (tempvarIndex c + 2)) @ '' := not ''
                       @ (''$__jade_'' @ Itoa (tempvarIndex c + 1)) @ ''}}'',
                    tempvarIndex := tempvarIndex c + 2\<rparr>,
                (''$__jade_'' @ Itoa (tempvarIndex c + 2)) # snd (pop (snd (pop st))))"
  using op apply (elim disjE)
  apply (simp_all add: execBinary_def tempvar_def writeBuf_def Let_def split_def ac_simps)
  done

text \<open>
  C2. A binary \<open>!=\<close>, \<open><=\<close> or \<open>>=\<close> whose operands have been evaluated (the right
  one first) to the state \<open>c\<close> and the stack \<open>st\<close> writes two instructions: the
  complementary primitive (\<open>__jade_eql\<close>, \<open>__jade_gtr\<close>, \<open>__jade_lss\<close>) applied to the two
  topmost references and bound to the temporary numbered \<open>tempvarIndex c + 1\<close>, then
  \<open>not\<close> of that temporary bound to the temporary numbered \<open>tempvarIndex c + 2\<close>. The
  second temporary is what is left on the stack, and it is the value of
  \<open>visitExpression\<close> when the comparison is the whole expression. Both temporaries are
  new: they differ from each other and from every temporary numbered up to
  \<open>tempvarIndex c\<close>.
\<close>

theorem binary_negated_lowering:
  assumes op: "op = NEQ \<or> op = LEQ \<or> op = GEQ"
    and y: "exec E Y s = Inr s1"
    and x: "exec E X s1 = Inr (c, st)"
    and nn: "0 \<le> tempvarIndex c"
  shows "exec E (BinaryExpr X op Y) s =
           Inr (c\<lparr>buffer := buffer c @ ''{{'' @ (''$__jade_'' @ Itoa (tempvarIndex c + 1)) @ '' := ''
                       @ (if op = NEQ then ''__jade_eql '' else if op = LEQ then ''__jade_gtr '' else ''__jade_lss '')
                       @ fst (pop st) @ '' '' @ fst (pop (snd (pop st))) @ ''}}''
                       @ ''{{'' @ (''$__jade_'' @ Itoa (tempvarIndex c + 2)) @ '' := not ''
                       @ (''$__jade_'' @ Itoa (tempvarIndex c + 1)) @ ''}}'',
                    tempvarIndex := tempvarIndex c + 2\<rparr>,
                (''$__jade_'' @ Itoa (tempvarIndex c + 2)) # snd (pop (snd (pop st))))
         \<and> (\<forall>c0. s = (c0, []) \<longrightarrow>
                map_sum id fst (visitExpression E (BinaryExpr X op Y) c0)
                  = Inr (''$__jade_'' @ Itoa (tempvarIndex c + 2)))
         \<and> Itoa (tempvarIndex c + 1) \<noteq> Itoa (tempvarIndex c + 2)
         \<and> (\<forall>k. 0 \<le> k \<and> k \<le> tempvarIndex c \<longrightarrow>
                Itoa k \<noteq> Itoa (tempvarIndex c + 1) \<and> Itoa k \<noteq> Itoa (tempvarIndex c + 2))"
proof -
  have e: "exec E (BinaryExpr X op Y) s = execBinary op (c, st)"
    using y x by simp
  have 1: "exec E (BinaryExpr X op Y) s =
           Inr (c\<lparr>buffer := buffer c @ ''{{'' @ (''$__jade_'' @ Itoa (tempvarIndex c + 1)) @ '' := ''
                       @ (if op = NEQ then ''__jade_eql '' else if op = LEQ then ''__jade_gtr '' else ''__jade_lss '')
                       @ fst (pop st) @ '' '' @ fst (pop (snd (pop st))) @ ''}}''
                       @ ''{{'' @ (''$__jade_'' @ Itoa (tempvarIndex c + 2)) @ '' := not ''
                       @ (''$__jade_'' @ Itoa (tempvarIndex c + 1)) @ ''}}'',
                    tempvarIndex := tempvarIndex c + 2\<rparr>,
                (''$__jade_'' @ Itoa (tempvarIndex c + 2)) # snd (pop (snd (pop st))))"
    unfolding e by (rule execBinary_negated [OF op])
  have 2: "map_sum id fst (visitExpression E (BinaryExpr X op Y) c0) = Inr (''$__jade_'' @ Itoa (tempvarIndex c + 2))"
    if "s = (c0, [])" for c0
    using 1 that unfolding visitExpression_def by (simp add: pop_def)
  have 3: "Itoa (tempvarIndex c + 1) \<noteq> Itoa (tempvarIndex c + 2)"
    using nn Itoa_inj [of "tempvarIndex c + 1" "tempvarIndex c + 2"] by auto
  have 4: "Itoa k \<noteq> Itoa (tempvarIndex c + 1) \<and> Itoa k \<noteq> Itoa (tempvarIndex c + 2)"
    if "0 \<le> k \<and> k \<le> tempvarIndex c" for k
    using that nn Itoa_inj [of k "tempvarIndex c + 1"] Itoa_inj [of k "tempvarIndex c + 2"] by auto
  from 1 2 3 4 show ?thesis by blast
qed

theorem binary_negated_lowering_witness:
  "exec exampleExtern (BinaryExpr (Ident ''a'') NEQ (BasicLit ''1'')) (exampleCompiler, []) =
     Inr (exampleCompiler\<lparr>buffer := ''{{$__jade_1 := __jade_eql .a 1}}{{$__jade_2 := not $__jade_1}}'',
                          tempvarIndex := 2\<rparr>, [''$__jade_2''])"
proof -
  have y: "exec exampleExtern (BasicLit ''1'') (exampleCompiler, []) = Inr (exampleCompiler, [''1''])"
    by simp
  have x: "exec exampleExtern (Ident ''a'') (exampleCompiler, [''1'']) = Inr (exampleCompiler, [''.a'', ''1''])"
    by (simp add: execIdent_def hasFunctionWithName_def exampleExtern_def exampleCompiler_def)
  have nn: "0 \<le> tempvarIndex exampleCompiler"
    by (simp add: exampleCompiler_def)
  have t: "tempvarIndex exampleCompiler = 0"
    by (simp add: exampleCompiler_def)
  have b: "buffer exampleCompiler = []"
    by (simp add: exampleCompiler_def)
  show ?thesis
    using binary_negated_lowering [OF _ y x nn, of NEQ]
    by (simp add: t b pop_def Itoa_1 Itoa_2)
qed

lemma take_prefix_conv: "(length p \<le> length s \<and> take (length p) s = p) = prefix p s"
  by (metis prefix_length_le take_is_prefix prefix_def append_eq_conv_conj)

lemma execIdent_plain:
  assumes "\<not> prefix ''__DOLLAR__'' name" and "name \<noteq> ''nil''"
  shows "execIdent E name (c, st) =
           (c, (if name \<in> set (Funcs c) \<union> set (FuncMap E) then name else ''.'' @ name) # st)"
  using assms
  unfolding execIdent_def take_prefix_conv
  by (simp add: hasFunctionWithName_def)

text \<open>
  C4, as the code has it. An identifier that is neither \<open>nil\<close> nor written with the
  sigil (the prefix \<open>__DOLLAR__\<close> that stands for \<open>$\<close>) is pushed unchanged, as a function
  name, exactly when it is a key of the custom functions \<open>Options.Funcs\<close> or of the runtime
  table \<open>FuncMap\<close>, and with a leading dot, as a field of the current context, otherwise;
  the list \<open>builtinFunctions\<close> is not consulted. The state is not changed and nothing is
  written.
\<close>

theorem ident_resolution:
  assumes "\<not> prefix ''__DOLLAR__'' name" and "name \<noteq> ''nil''"
  shows "exec E (Ident name) (c, st) =
           Inr (c, (if name \<in> set (Funcs c) \<union> set (FuncMap E) then name else ''.'' @ name) # st)"
  using execIdent_plain [OF assms] by simp

theorem ident_resolution_witness:
  "exec exampleExtern (Ident ''json'') (exampleCompiler, []) = Inr (exampleCompiler, [''json''])
   \<and> exec exampleExtern (Ident ''len'') (exampleCompiler, []) = Inr (exampleCompiler, [''.len''])"
proof -
  have 1: "\<not> prefix ''__DOLLAR__'' ''json''" "''json'' \<noteq> ''nil''"
    and 2: "\<not> prefix ''__DOLLAR__'' ''len''" "''len'' \<noteq> ''nil''"
    by simp_all
  show ?thesis
    using ident_resolution [OF 1, of exampleExtern exampleCompiler "[]"]
      ident_resolution [OF 2, of exampleExtern exampleCompiler "[]"]
    by (simp add: exampleExtern_def exampleCompiler_def)
qed

text \<open>
  The identifier \<open>nil\<close> is no key of either table of the example, and yet it is pushed
  without the dot: it is neither a registered function nor a field lookup.
\<close>

theorem ident_nil_counterexample:
  "\<not> hasFunctionWithName exampleExtern exampleCompiler ''nil''
   \<and> exec exampleExtern (Ident ''nil'') (exampleCompiler, []) = Inr (exampleCompiler, [''nil''])
   \<and> exec exampleExtern (Ident ''nil'') (exampleCompiler, []) \<noteq> Inr (exampleCompiler, [''.nil''])"
  by (simp add: execIdent_def hasFunctionWithName_def exampleExtern_def exampleCompiler_def)

section \<open>Attribute values\<close>

lemma strings_Index_zero: "strings_Index s sep = 0 \<longleftrightarrow> prefix sep s"
  by (cases s) (auto simp: Let_def)

text \<open>
  C10. When the value of an attribute that is not raw has been computed, it is the
  value reference \<open>r\<close> of the attribute's expression wrapped as \<open>{{ safeJS r}}\<close> if the
  name of the attribute starts with \<open>on\<close>, and as \<open>{{r}}\<close> if it does not.
\<close>

theorem nonraw_attribute_interpolation:
  assumes "\<not> IsRaw item" and "attrValue E item c = Inr (a, c2)"
  shows "\<exists>r c1. visitRawInterpolation E (aValue item) c = Inr (r, c1)
           \<and> attr_value a = (if prefix ''on'' (aName item) then ''{{ safeJS '' @ r @ ''}}'' else ''{{'' @ r @ ''}}'')"
  using assms
  by (auto simp: attrValue_def visitJSInterpolation_def visitInterpolation_def strings_Index_zero
      split: if_splits sum.splits prod.splits)

lemma rawInterp_click:
  "visitRawInterpolation exampleExtern ''click()'' exampleCompiler =
     Inr (''$__jade_1'', exampleCompiler\<lparr>buffer := ''{{$__jade_1 := .click}}'', tempvarIndex := 1\<rparr>)"
proof -
  have r1: "strings_ReplaceAll ''click()'' ''$'' ''__DOLLAR__'' = ''click()''" by code_simp
  have r2: "strings_ReplaceAll ''$__jade_1'' ''__DOLLAR__'' ''$'' = ''$__jade_1''" by code_simp
  show ?thesis
    by (simp add: visitRawInterpolation_def r1 r2 exampleExtern_def exampleParseExpr_def
        visitExpression_def tempvar_def writeBuf_def finishCall_def pop_def execIdent_def
        hasFunctionWithName_def builtinFunctions_def exampleCompiler_def Itoa_1)
qed

theorem nonraw_attribute_interpolation_witness:
  "\<exists>a c2. attrValue exampleExtern onclickAttr exampleCompiler = Inr (a, c2)
      \<and> attr_value a = ''{{ safeJS $__jade_1}}''"
proof -
  have nr: "\<not> IsRaw onclickAttr" by (simp add: onclickAttr_def)
  have ev: "attrValue exampleExtern onclickAttr exampleCompiler =
      Inr (\<lparr>attr_name = ''onclick'', attr_value = ''{{ safeJS $__jade_1}}'', attr_condition = []\<rparr>,
           exampleCompiler\<lparr>buffer := ''{{$__jade_1 := .click}}'', tempvarIndex := 1\<rparr>)"
    by (simp add: attrValue_def onclickAttr_def visitJSInterpolation_def rawInterp_click)
  from nonraw_attribute_interpolation [OF nr ev] show ?thesis
    using ev by simp
qed

section \<open>The attribute table\<close>

lemma collectAttribs_fold:
  "collectAttribs E items tbl c =
     (case attrValues E items c of
        Inl p \<Rightarrow> Inl p
      | Inr (as, c') \<Rightarrow> Inr (fold addAttrib as tbl, c'))"
  by (induction items arbitrary: tbl c) (auto split: sum.splits)

lemma attrValue_name: "attrValue E item c = Inr (a, c') \<Longrightarrow> attr_name a = aName item"
  by (auto simp: attrValue_def split: if_splits sum.splits prod.splits)

lemma attrValues_names: "attrValues E items c = Inr (as, c') \<Longrightarrow> map attr_name as = map aName items"
proof (induction items arbitrary: as c)
  case Nil
  then show ?case by simp
next
  case (Cons item items)
  from Cons.prems obtain a c1 as' where 1: "attrValue E item c = Inr (a, c1)"
    and 2: "attrValues E items c1 = Inr (as', c')" and 3: "as = a # as'"
    by (auto split: sum.splits)
  from attrValue_name [OF 1] Cons.IH [OF 2] 3 show ?case by simp
qed

lemma addAttrib_other:
  "\<not> isClass a \<Longrightarrow> map_of (addAttrib a tbl) ''class'' = map_of tbl ''class''"
  by (simp add: addAttrib_def isClass_def update_conv')

lemma addAttrib_first:
  "isClass a \<Longrightarrow> map_of tbl ''class'' = None \<Longrightarrow> map_of (addAttrib a tbl) ''class'' = Some a"
  by (simp add: addAttrib_def isClass_def update_conv')

lemma addAttrib_merge:
  "isClass a \<Longrightarrow> map_of tbl ''class'' = Some p \<Longrightarrow>
   map_of (addAttrib a tbl) ''class'' =
     Some \<lparr>attr_name = attr_name p,
           attr_value = conditional (attr_condition p) (attr_value p) @ classContribution a,
           attr_condition = []\<rparr>"
  by (simp add: addAttrib_def isClass_def update_conv' conditional_def classContribution_def Let_def)

lemma fold_merged:
  "map_of tbl ''class'' = Some p \<Longrightarrow> attr_condition p = [] \<Longrightarrow>
   map_of (fold addAttrib as tbl) ''class'' =
     Some \<lparr>attr_name = attr_name p,
           attr_value = attr_value p @ concat (map classContribution (filter isClass as)),
           attr_condition = []\<rparr>"
proof (induction as arbitrary: tbl p)
  case Nil
  then show ?case by simp
next
  case (Cons x as)
  show ?case
  proof (cases "isClass x")
    case True
    from addAttrib_merge [OF True Cons.prems(1)] Cons.prems(2)
    have m: "map_of (addAttrib x tbl) ''class'' =
      Some \<lparr>attr_name = attr_name p, attr_value = attr_value p @ classContribution x, attr_condition = []\<rparr>"
      by (simp add: conditional_def)
    from Cons.IH [OF m] True show ?thesis by simp
  next
    case False
    from addAttrib_other [OF False] Cons.prems(1)
    have "map_of (addAttrib x tbl) ''class'' = Some p" by simp
    from Cons.IH [OF this Cons.prems(2)] False show ?thesis by simp
  qed
qed

lemma fold_one:
  "map_of tbl ''class'' = Some p \<Longrightarrow> filter isClass as = b # rest \<Longrightarrow>
   map_of (fold addAttrib as tbl) ''class'' =
     Some \<lparr>attr_name = attr_name p,
           attr_value = conditional (attr_condition p) (attr_value p)
                        @ concat (map classContribution (b # rest)),
           attr_condition = []\<rparr>"
proof (induction as arbitrary: tbl)
  case Nil
  then show ?case by simp
next
  case (Cons x as)
  show ?case
  proof (cases "isClass x")
    case True
    with Cons.prems(2) have xb: "x = b" and r: "filter isClass as = rest" by simp_all
    from addAttrib_merge [OF True Cons.prems(1)]
    have m: "map_of (addAttrib x tbl) ''class'' =
      Some \<lparr>attr_name = attr_name p,
            attr_value = conditional (attr_condition p) (attr_value p) @ classContribution x,
            attr_condition = []\<rparr>" .
    from fold_merged [OF m] r xb show ?thesis by simp
  next
    case False
    with Cons.prems(2) have r: "filter isClass as = b # rest" by simp
    from addAttrib_other [OF False] Cons.prems(1)
    have "map_of (addAttrib x tbl) ''class'' = Some p" by simp
    from Cons.IH [OF this r] show ?thesis by simp
  qed
qed

lemma fold_none:
  "map_of tbl ''class'' = None \<Longrightarrow> filter isClass as = a # b # rest \<Longrightarrow>
   map_of (fold addAttrib as tbl) ''class'' =
     Some \<lparr>attr_name = ''class'',
           attr_value = conditional (attr_condition a) (attr_value a)
                        @ concat (map classContribution (b # rest)),
           attr_condition = []\<rparr>"
proof (induction as arbitrary: tbl)
  case Nil
  then show ?case by simp
next
  case (Cons x as)
  show ?case
  proof (cases "isClass x")
    case True
    with Cons.prems(2) have xa: "x = a" and r: "filter isClass as = b # rest" by simp_all
    from addAttrib_first [OF True Cons.prems(1)]
    have m: "map_of (addAttrib x tbl) ''class'' = Some x" .
    from fold_one [OF m r] xa True show ?thesis by (simp add: isClass_def)
  next
    case False
    with Cons.prems(2) have r: "filter isClass as = a # b # rest" by simp
    from addAttrib_other [OF False] Cons.prems(1)
    have "map_of (addAttrib x tbl) ''class'' = None" by simp
    from Cons.IH [OF this r] show ?thesis by simp
  qed
qed

text \<open>
  C5. When the values of the declared attributes have been computed, to \<open>as\<close>, and at
  least two of them are named \<open>class\<close> (\<open>a\<close>, \<open>b\<close> and \<open>rest\<close>, in the order of
  declaration), the table holds a single \<open>class\<close> entry: the value of \<open>a\<close>, then for each
  later declaration a space and its value, in the order of declaration; the part of a
  declaration that has a guard is wrapped in \<open>{{if guard}} ... {{end}}\<close> of its own; the
  merged entry itself has no guard.
\<close>

theorem class_attributes_concatenate:
  assumes "attrValues E attrs c = Inr (as, c')"
    and "filter isClass as = a # b # rest"
  shows "\<exists>tbl. collectAttribs E attrs [] c = Inr (tbl, c')
           \<and> map attr_name as = map aName attrs
           \<and> map_of tbl ''class'' =
               Some \<lparr>attr_name = ''class'',
                     attr_value = conditional (attr_condition a) (attr_value a)
                                  @ concat (map classContribution (b # rest)),
                     attr_condition = []\<rparr>"
  using assms fold_none [of "[]" as a b rest]
  by (simp add: collectAttribs_fold attrValues_names)

lemma addAttrib_keys:
  "fst ` set (addAttrib a tbl) = insert (attr_name a) (fst ` set tbl)"
  by (auto simp: addAttrib_def dom_update Let_def split: option.splits if_splits)

lemma addAttrib_distinct:
  "distinct (map fst tbl) \<Longrightarrow> distinct (map fst (addAttrib a tbl))"
  by (auto simp: addAttrib_def distinct_update Let_def split: option.splits if_splits)

lemma fold_addAttrib_keys:
  "fst ` set (fold addAttrib as tbl) = attr_name ` set as \<union> fst ` set tbl"
  by (induction as arbitrary: tbl) (auto simp: addAttrib_keys)

lemma fold_addAttrib_distinct:
  "distinct (map fst tbl) \<Longrightarrow> distinct (map fst (fold addAttrib as tbl))"
  by (induction as arbitrary: tbl) (auto simp: addAttrib_distinct)

lemma sort_enumeration:
  assumes "distinct ks'" and "set ks' = S"
  shows "sort_Strings ks' = sorted_list_of_set S"
proof -
  have "sorted_list_of_set (set ks') = sort (remdups ks')"
    by (rule sorted_list_of_set_sort_remdups)
  with assms show ?thesis
    by (simp add: sort_Strings_def distinct_remdups_id)
qed

text \<open>
  C6. Whatever the order in which the keys of the table are enumerated (each key once),
  the attributes are written in the ascending lexicographic order of their names, each
  name once: the order is \<open>sorted_list_of_set\<close> of the set of declared names, which does
  not depend on the order of declaration.
\<close>

theorem attributes_emitted_sorted:
  assumes perm: "\<And>ks. distinct ks \<Longrightarrow> distinct (rangeOrder E ks) \<and> set (rangeOrder E ks) = set ks"
    and ok: "visitTagOpen E name attrs c = Inr c'"
  shows "\<exists>tbl c1. collectAttribs E attrs [] c = Inr (tbl, c1)
           \<and> sort_Strings (rangeOrder E (map fst tbl)) = sorted_list_of_set (aName ` set attrs)
           \<and> sorted (sort_Strings (rangeOrder E (map fst tbl)))
           \<and> distinct (sort_Strings (rangeOrder E (map fst tbl)))
           \<and> emitAttrs tbl (sorted_list_of_set (aName ` set attrs))
                (writeBuf (''<'' @ name) (indent 0 True c1)) = Inr c'"
proof -
  from ok obtain tbl c1 where col: "collectAttribs E attrs [] c = Inr (tbl, c1)"
    by (auto simp: visitTagOpen_def split: sum.splits)
  then obtain as where av: "attrValues E attrs c = Inr (as, c1)" and tbl: "tbl = fold addAttrib as []"
    by (auto simp: collectAttribs_fold split: sum.splits)
  have d: "distinct (map fst tbl)" unfolding tbl by (rule fold_addAttrib_distinct) simp
  have "fst ` set tbl = attr_name ` set as" unfolding tbl by (simp add: fold_addAttrib_keys)
  also have "\<dots> = set (map attr_name as)" by simp
  also have "\<dots> = aName ` set attrs" using attrValues_names [OF av] by simp
  finally have k: "set (map fst tbl) = aName ` set attrs" by simp
  from perm [OF d] k have s: "sort_Strings (rangeOrder E (map fst tbl)) = sorted_list_of_set (aName ` set attrs)"
    by (intro sort_enumeration) auto
  from ok col s have "emitAttrs tbl (sorted_list_of_set (aName ` set attrs))
                (writeBuf (''<'' @ name) (indent 0 True c1)) = Inr c'"
    by (simp add: visitTagOpen_def Let_def)
  with col s show ?thesis by (auto simp del: sorted_list_of_set.sorted_key_list_of_set_unique)
qed

lemma attrValue_empty_iff:
  "attrValue E item c = Inr (a, c') \<Longrightarrow> (attr_value a = [] \<longleftrightarrow> IsRaw item \<and> aValue item = [])"
  by (auto simp: attrValue_def visitJSInterpolation_def visitInterpolation_def
      split: if_splits sum.splits prod.splits)

lemma emitAttr_text:
  "map_of tbl name = Some v \<Longrightarrow>
   emitAttr tbl name c =
     Inr (writeBuf (conditional (attr_condition v)
            (if attr_value v = [] then '' '' @ name
             else '' '' @ name @ ''='' @ [CHR 0x22] @ attr_value v @ [CHR 0x22])) c)"
  by (simp add: emitAttr_def conditional_def writeBuf_def Let_def)

lemma writeBuf_nil: "writeBuf [] c = c"
  by (simp add: writeBuf_def)

lemma writeBuf_append: "writeBuf (a @ b) c = writeBuf b (writeBuf a c)"
  by (simp add: writeBuf_def)

lemma emitAttrs_text:
  "set names \<subseteq> fst ` set tbl \<Longrightarrow>
   emitAttrs tbl names c = Inr (writeBuf (concat (map (attrText tbl) names)) c)"
proof (induction names arbitrary: c)
  case Nil
  then show ?case by (simp add: writeBuf_nil)
next
  case (Cons n names)
  from Cons.prems have "n \<in> fst ` set tbl" by simp
  then obtain v where v: "map_of tbl n = Some v"
    by (metis domD dom_map_of_conv_image_fst)
  from Cons.prems have "set names \<subseteq> fst ` set tbl" by simp
  from Cons.IH [OF this] emitAttr_text [OF v] v show ?case
    by (simp add: attrText_def writeBuf_append)
qed

lemma addAttrib_other_key:
  "attr_name a \<noteq> k \<Longrightarrow> map_of (addAttrib a tbl) k = map_of tbl k"
  by (auto simp: addAttrib_def update_conv' Let_def split: option.splits)

lemma addAttrib_new:
  "map_of tbl (attr_name a) = None \<Longrightarrow> map_of (addAttrib a tbl) (attr_name a) = Some a"
  by (auto simp: addAttrib_def update_conv' Let_def split: option.splits)

lemma fold_absent:
  "filter (\<lambda>a. attr_name a = k) as = [] \<Longrightarrow> map_of (fold addAttrib as tbl) k = map_of tbl k"
proof (induction as arbitrary: tbl)
  case Nil
  then show ?case by simp
next
  case (Cons x as)
  from Cons.prems have n: "attr_name x \<noteq> k" and r: "filter (\<lambda>a. attr_name a = k) as = []"
    by (auto split: if_splits)
  from Cons.IH [OF r] addAttrib_other_key [OF n] show ?case by simp
qed

lemma fold_unique:
  "filter (\<lambda>a. attr_name a = k) as = [v] \<Longrightarrow> map_of tbl k = None \<Longrightarrow>
   map_of (fold addAttrib as tbl) k = Some v"
proof (induction as arbitrary: tbl)
  case Nil
  then show ?case by simp
next
  case (Cons x as)
  show ?case
  proof (cases "attr_name x = k")
    case True
    with Cons.prems(1) have xv: "x = v" and r: "filter (\<lambda>a. attr_name a = k) as = []" by simp_all
    from addAttrib_new [of tbl x] True Cons.prems(2) have "map_of (addAttrib x tbl) k = Some x" by simp
    with fold_absent [OF r, of "addAttrib x tbl"] xv show ?thesis by simp
  next
    case False
    with Cons.prems(1) have r: "filter (\<lambda>a. attr_name a = k) as = [v]" by simp
    from addAttrib_other_key [OF False] Cons.prems(2) have "map_of (addAttrib x tbl) k = None" by simp
    from Cons.IH [OF r this] show ?thesis by simp
  qed
qed

lemma attrValues_filter:
  "attrValues E attrs c = Inr (as, c1) \<Longrightarrow>
   list_all2 (\<lambda>i v. \<exists>ca cb. attrValue E i ca = Inr (v, cb))
     (filter (\<lambda>i. aName i = k) attrs) (filter (\<lambda>a. attr_name a = k) as)"
proof (induction attrs arbitrary: as c)
  case Nil
  then show ?case by simp
next
  case (Cons item items)
  from Cons.prems obtain a c2 as' where 1: "attrValue E item c = Inr (a, c2)"
    and 2: "attrValues E items c2 = Inr (as', c1)" and 3: "as = a # as'"
    by (auto split: sum.splits)
  from attrValue_name [OF 1] Cons.IH [OF 2] 1 3 show ?case by auto
qed

lemma attrValue_raw:
  "attrValue E item c = Inr (a, c') \<Longrightarrow> IsRaw item \<Longrightarrow> attr_value a = aValue item"
  by (auto simp: attrValue_def split: if_splits sum.splits prod.splits)

lemma attrValue_nonraw:
  "attrValue E item c = Inr (a, c') \<Longrightarrow> \<not> IsRaw item \<Longrightarrow> prefix ''{{'' (attr_value a)"
  by (auto simp: attrValue_def visitJSInterpolation_def visitInterpolation_def
      split: if_splits sum.splits prod.splits)

text \<open>
  C7, as the code has it. Let the tag be opened without a panic, the keys of the table
  being enumerated each once, and let \<open>item\<close> be the only declared attribute of its name.
  Then what is written after \<open><name\<close> is the text of each declared name, in sorted
  order, and the text for the name of \<open>item\<close> is that of the value \<open>v\<close> computed from
  \<open>item\<close>: a space and the name alone exactly when \<open>item\<close> is raw and its declared value
  is empty, and the name with \<open>="v"\<close> otherwise, inside \<open>{{if guard}} ... {{end}}\<close> when
  the attribute has a guard. The value of a raw attribute is its declared value; the value
  of an attribute that is not raw starts with \<open>{{\<close> and is never empty.
\<close>

theorem raw_empty_attribute_bare:
  assumes perm: "\<And>ks. distinct ks \<Longrightarrow> distinct (rangeOrder E ks) \<and> set (rangeOrder E ks) = set ks"
    and ok: "visitTagOpen E name attrs c = Inr c'"
    and only: "filter (\<lambda>i. aName i = aName item) attrs = [item]"
  shows "\<exists>tbl c1 v.
           collectAttribs E attrs [] c = Inr (tbl, c1)
         \<and> c' = writeBuf (concat (map (attrText tbl) (sorted_list_of_set (aName ` set attrs))))
                  (writeBuf (''<'' @ name) (indent 0 True c1))
         \<and> aName item \<in> set (sorted_list_of_set (aName ` set attrs))
         \<and> map_of tbl (aName item) = Some v
         \<and> (\<exists>ca cb. attrValue E item ca = Inr (v, cb))
         \<and> (attr_value v = [] \<longleftrightarrow> IsRaw item \<and> aValue item = [])
         \<and> (IsRaw item \<longrightarrow> attr_value v = aValue item)
         \<and> (\<not> IsRaw item \<longrightarrow> prefix ''{{'' (attr_value v))
         \<and> attrText tbl (aName item) =
             conditional (attr_condition v)
               (if IsRaw item \<and> aValue item = [] then '' '' @ aName item
                else '' '' @ aName item @ ''='' @ [CHR 0x22] @ attr_value v @ [CHR 0x22])"
proof -
  from ok obtain tbl c1 where col: "collectAttribs E attrs [] c = Inr (tbl, c1)"
    by (auto simp: visitTagOpen_def split: sum.splits)
  then obtain as where av: "attrValues E attrs c = Inr (as, c1)" and tbl: "tbl = fold addAttrib as []"
    by (auto simp: collectAttribs_fold split: sum.splits)
  have d: "distinct (map fst tbl)" unfolding tbl by (rule fold_addAttrib_distinct) simp
  have "fst ` set tbl = attr_name ` set as" unfolding tbl by (simp add: fold_addAttrib_keys)
  also have "\<dots> = set (map attr_name as)" by simp
  also have "\<dots> = aName ` set attrs" using attrValues_names [OF av] by simp
  finally have k: "fst ` set tbl = aName ` set attrs" .
  from perm [OF d] k have s: "sort_Strings (rangeOrder E (map fst tbl)) = sorted_list_of_set (aName ` set attrs)"
    by (intro sort_enumeration) auto
  have fin: "finite (aName ` set attrs)" by simp
  have sub: "set (sorted_list_of_set (aName ` set attrs)) \<subseteq> fst ` set tbl"
    using k fin by simp
  from ok col s have "emitAttrs tbl (sorted_list_of_set (aName ` set attrs))
                (writeBuf (''<'' @ name) (indent 0 True c1)) = Inr c'"
    by (simp add: visitTagOpen_def Let_def)
  with emitAttrs_text [OF sub]
  have out: "c' = writeBuf (concat (map (attrText tbl) (sorted_list_of_set (aName ` set attrs))))
                  (writeBuf (''<'' @ name) (indent 0 True c1))"
    by simp
  from only have "item \<in> set (filter (\<lambda>i. aName i = aName item) attrs)" by simp
  then have "item \<in> set attrs" by simp
  with fin have mem: "aName item \<in> set (sorted_list_of_set (aName ` set attrs))" by simp
  from attrValues_filter [OF av, of "aName item"] only
  obtain v where f: "filter (\<lambda>a. attr_name a = aName item) as = [v]"
    and v: "\<exists>ca cb. attrValue E item ca = Inr (v, cb)"
    by (auto simp: list_all2_Cons1)
  from fold_unique [OF f, of "[]"] have m: "map_of tbl (aName item) = Some v"
    by (simp add: tbl)
  from v obtain ca cb where a: "attrValue E item ca = Inr (v, cb)" by blast
  note e = attrValue_empty_iff [OF a]
  have r: "IsRaw item \<longrightarrow> attr_value v = aValue item" using attrValue_raw [OF a] by simp
  have n: "\<not> IsRaw item \<longrightarrow> prefix ''{{'' (attr_value v)" using attrValue_nonraw [OF a] by simp
  have t: "attrText tbl (aName item) =
             conditional (attr_condition v)
               (if IsRaw item \<and> aValue item = [] then '' '' @ aName item
                else '' '' @ aName item @ ''='' @ [CHR 0x22] @ attr_value v @ [CHR 0x22])"
    using m e by (simp add: attrText_def)
  from col out mem m v e r n t show ?thesis by blast
qed

lemma replace_nil: "strings_ReplaceAll [] old new = []"
  by (simp add: strings_ReplaceAll.simps)

lemma rawInterp_empty:
  "visitRawInterpolation exampleExtern [] c =
     Inl (RuntimeError ''runtime error: index out of range [0] with length 0'')"
  by (simp add: visitRawInterpolation_def replace_nil exampleExtern_def exampleParseExpr_def)

text \<open>
  An attribute that is not raw and has the empty value is not written as a bare name:
  its value goes to \<open>visitRawInterpolation\<close>, where Go's parser rejects the empty string
  and the single-quote fallback reads the first byte of it.
\<close>

theorem nonraw_empty_attribute_counterexample:
  "visitTagOpen exampleExtern ''input'' [exprAttr ''disabled'' [] []] exampleCompiler =
     Inl (RuntimeError ''runtime error: index out of range [0] with length 0'')"
  by (simp add: visitTagOpen_def attrValue_def exprAttr_def visitInterpolation_def rawInterp_empty)

lemma exampleExtern_simps:
  "rangeOrder exampleExtern = rev"
  "ParseExpr exampleExtern = exampleParseExpr"
  by (simp_all add: exampleExtern_def)

lemma exampleCompiler_simps:
  "buffer exampleCompiler = []"
  "tempvarIndex exampleCompiler = 0"
  "Funcs exampleCompiler = []"
  "PrettyPrint exampleCompiler = False"
  "indentLevel exampleCompiler = 0"
  by (simp_all add: exampleCompiler_def)

lemma indent_example: "indent 0 True exampleCompiler = exampleCompiler"
  by (simp add: indent_def exampleCompiler_def)

theorem raw_empty_attribute_bare_witness:
  "visitTagOpen exampleExtern ''input'' [rawAttr ''id'' ''x'' [], rawAttr ''disabled'' [] []] exampleCompiler =
        Inr (exampleCompiler\<lparr>buffer := ''<input disabled id='' @ [CHR 0x22] @ ''x'' @ [CHR 0x22]\<rparr>)
   \<and> filter (\<lambda>i. aName i = aName (rawAttr ''disabled'' [] []))
        [rawAttr ''id'' ''x'' [], rawAttr ''disabled'' [] []] = [rawAttr ''disabled'' [] []]
   \<and> (\<exists>tbl. collectAttribs exampleExtern [rawAttr ''id'' ''x'' [], rawAttr ''disabled'' [] []] []
               exampleCompiler = Inr (tbl, exampleCompiler)
           \<and> attrText tbl ''disabled'' = '' disabled'')"
proof -
  have perm: "\<And>ks. distinct ks \<Longrightarrow> distinct (rangeOrder exampleExtern ks) \<and> set (rangeOrder exampleExtern ks) = set ks"
    by (simp add: exampleExtern_def)
  have s: "sort [''disabled'', ''id''] = [''disabled'', ''id'']" by code_simp
  have ok: "visitTagOpen exampleExtern ''input'' [rawAttr ''id'' ''x'' [], rawAttr ''disabled'' [] []] exampleCompiler =
        Inr (exampleCompiler\<lparr>buffer := ''<input disabled id='' @ [CHR 0x22] @ ''x'' @ [CHR 0x22]\<rparr>)"
    by (simp add: visitTagOpen_def attrValue_def rawAttr_def addAttrib_def indent_example sort_Strings_def s
        exampleExtern_simps emitAttr_def writeBuf_def exampleCompiler_simps)
  have only: "filter (\<lambda>i. aName i = aName (rawAttr ''disabled'' [] []))
        [rawAttr ''id'' ''x'' [], rawAttr ''disabled'' [] []] = [rawAttr ''disabled'' [] []]"
    by (simp add: rawAttr_def)
  have col: "\<exists>tbl. collectAttribs exampleExtern [rawAttr ''id'' ''x'' [], rawAttr ''disabled'' [] []] []
               exampleCompiler = Inr (tbl, exampleCompiler)"
    by (simp add: collectAttribs_fold attrValue_def rawAttr_def)
  from raw_empty_attribute_bare [OF perm ok only] obtain tbl c1 v where
    c: "collectAttribs exampleExtern [rawAttr ''id'' ''x'' [], rawAttr ''disabled'' [] []] []
               exampleCompiler = Inr (tbl, c1)"
    and a: "\<exists>ca cb. attrValue exampleExtern (rawAttr ''disabled'' [] []) ca = Inr (v, cb)"
    and t: "attrText tbl (aName (rawAttr ''disabled'' [] [])) =
             conditional (attr_condition v)
               (if IsRaw (rawAttr ''disabled'' [] []) \<and> aValue (rawAttr ''disabled'' [] []) = []
                then '' '' @ aName (rawAttr ''disabled'' [] [])
                else '' '' @ aName (rawAttr ''disabled'' [] []) @ ''='' @ [CHR 0x22] @ attr_value v @ [CHR 0x22])"
    by blast
  from a have "attr_condition v = []" by (auto simp: attrValue_def rawAttr_def)
  with t have "attrText tbl ''disabled'' = '' disabled''"
    by (simp add: rawAttr_def conditional_def)
  with c col ok only show ?thesis by auto
qed

lemma rawInterp_Active:
  "visitRawInterpolation exampleExtern ''Active'' exampleCompiler = Inr (''.Active'', exampleCompiler)"
proof -
  have r1: "strings_ReplaceAll ''Active'' ''$'' ''__DOLLAR__'' = ''Active''" by code_simp
  have r2: "strings_ReplaceAll ''.Active'' ''__DOLLAR__'' ''$'' = ''.Active''" by code_simp
  show ?thesis
    by (simp add: visitRawInterpolation_def r1 r2 exampleExtern_def exampleParseExpr_def
        visitExpression_def pop_def execIdent_def hasFunctionWithName_def exampleCompiler_def)
qed

theorem class_attributes_concatenate_witness:
  "(\<exists>tbl. collectAttribs exampleExtern [rawAttr ''class'' ''a'' ''Active'', rawAttr ''id'' ''x'' [], rawAttr ''class'' ''b'' []] []
            exampleCompiler = Inr (tbl, exampleCompiler)
         \<and> map_of tbl ''class'' =
             Some \<lparr>attr_name = ''class'', attr_value = ''{{if .Active}}a{{end}} b'', attr_condition = []\<rparr>)
   \<and> visitTagOpen exampleExtern ''p'' [rawAttr ''class'' ''a'' [], rawAttr ''class'' ''b'' []] exampleCompiler =
        Inr (exampleCompiler\<lparr>buffer := ''<p class='' @ [CHR 0x22] @ ''a b'' @ [CHR 0x22]\<rparr>)"
proof -
  let ?a = "\<lparr>attr_name = ''class'', attr_value = ''a'', attr_condition = ''.Active''\<rparr>"
  let ?i = "\<lparr>attr_name = ''id'', attr_value = ''x'', attr_condition = []\<rparr>"
  let ?b = "\<lparr>attr_name = ''class'', attr_value = ''b'', attr_condition = []\<rparr>"
  have av: "attrValues exampleExtern [rawAttr ''class'' ''a'' ''Active'', rawAttr ''id'' ''x'' [], rawAttr ''class'' ''b'' []]
              exampleCompiler = Inr ([?a, ?i, ?b], exampleCompiler)"
    by (simp add: attrValue_def rawAttr_def rawInterp_Active)
  have f: "filter isClass [?a, ?i, ?b] = ?a # ?b # []"
    by (simp add: isClass_def)
  have 1: "\<exists>tbl. collectAttribs exampleExtern [rawAttr ''class'' ''a'' ''Active'', rawAttr ''id'' ''x'' [], rawAttr ''class'' ''b'' []] []
            exampleCompiler = Inr (tbl, exampleCompiler)
         \<and> map_of tbl ''class'' =
             Some \<lparr>attr_name = ''class'', attr_value = ''{{if .Active}}a{{end}} b'', attr_condition = []\<rparr>"
  proof -
    from class_attributes_concatenate [OF av f] obtain tbl where
      c: "collectAttribs exampleExtern [rawAttr ''class'' ''a'' ''Active'', rawAttr ''id'' ''x'' [], rawAttr ''class'' ''b'' []] []
            exampleCompiler = Inr (tbl, exampleCompiler)"
      and m: "map_of tbl ''class'' =
               Some \<lparr>attr_name = ''class'',
                     attr_value = conditional (attr_condition ?a) (attr_value ?a)
                                  @ concat (map classContribution (?b # [])),
                     attr_condition = []\<rparr>"
      by blast
    from m have "map_of tbl ''class'' =
             Some \<lparr>attr_name = ''class'', attr_value = ''{{if .Active}}a{{end}} b'', attr_condition = []\<rparr>"
      by (simp add: conditional_def classContribution_def)
    with c show ?thesis by blast
  qed
  have 2: "visitTagOpen exampleExtern ''p'' [rawAttr ''class'' ''a'' [], rawAttr ''class'' ''b'' []] exampleCompiler =
        Inr (exampleCompiler\<lparr>buffer := ''<p class='' @ [CHR 0x22] @ ''a b'' @ [CHR 0x22]\<rparr>)"
    by (simp add: visitTagOpen_def attrValue_def rawAttr_def addAttrib_def indent_example sort_Strings_def
        exampleExtern_simps emitAttr_def writeBuf_def exampleCompiler_simps)
  from 1 2 show ?thesis by blast
qed

lemma sorted_names_example:
  "sorted_list_of_set (aName ` set [rawAttr ''id'' ''x'' [], rawAttr ''class'' ''c'' [], rawAttr ''alt'' [] []])
     = [''alt'', ''class'', ''id'']"
proof -
  have "aName ` set [rawAttr ''id'' ''x'' [], rawAttr ''class'' ''c'' [], rawAttr ''alt'' [] []]
          = set [''id'', ''class'', ''alt'']"
    by (simp add: rawAttr_def)
  moreover have "sort (remdups [''id'', ''class'', ''alt'']) = [''alt'', ''class'', ''id'']"
    by code_simp
  ultimately show ?thesis
    by (simp only: sorted_list_of_set_sort_remdups)
qed

theorem attributes_emitted_sorted_witness:
  "visitTagOpen exampleExtern ''img'' [rawAttr ''id'' ''x'' [], rawAttr ''class'' ''c'' [], rawAttr ''alt'' [] []] exampleCompiler
     = Inr (exampleCompiler\<lparr>buffer := ''<img alt class='' @ [CHR 0x22] @ ''c'' @ [CHR 0x22] @ '' id='' @ [CHR 0x22] @ ''x'' @ [CHR 0x22]\<rparr>)
   \<and> (\<exists>tbl. sort_Strings (rangeOrder exampleExtern (map fst tbl)) = [''alt'', ''class'', ''id'']
          \<and> collectAttribs exampleExtern [rawAttr ''id'' ''x'' [], rawAttr ''class'' ''c'' [], rawAttr ''alt'' [] []] []
               exampleCompiler = Inr (tbl, exampleCompiler))"
proof -
  have perm: "\<And>ks. distinct ks \<Longrightarrow> distinct (rangeOrder exampleExtern ks) \<and> set (rangeOrder exampleExtern ks) = set ks"
    by (simp add: exampleExtern_def)
  have s: "sort [''alt'', ''class'', ''id''] = [''alt'', ''class'', ''id'']" by code_simp
  have ok: "visitTagOpen exampleExtern ''img'' [rawAttr ''id'' ''x'' [], rawAttr ''class'' ''c'' [], rawAttr ''alt'' [] []] exampleCompiler
     = Inr (exampleCompiler\<lparr>buffer := ''<img alt class='' @ [CHR 0x22] @ ''c'' @ [CHR 0x22] @ '' id='' @ [CHR 0x22] @ ''x'' @ [CHR 0x22]\<rparr>)"
    by (simp add: visitTagOpen_def attrValue_def rawAttr_def addAttrib_def indent_example sort_Strings_def s
        exampleExtern_simps emitAttr_def writeBuf_def exampleCompiler_simps)
  have col: "collectAttribs exampleExtern [rawAttr ''id'' ''x'' [], rawAttr ''class'' ''c'' [], rawAttr ''alt'' [] []] []
               exampleCompiler = Inr (fold addAttrib [\<lparr>attr_name = ''id'', attr_value = ''x'', attr_condition = []\<rparr>,
                   \<lparr>attr_name = ''class'', attr_value = ''c'', attr_condition = []\<rparr>,
                   \<lparr>attr_name = ''alt'', attr_value = [], attr_condition = []\<rparr>] [], exampleCompiler)"
    by (simp add: collectAttribs_fold attrValue_def rawAttr_def)
  from attributes_emitted_sorted [OF perm ok] obtain tbl c1 where
    "collectAttribs exampleExtern [rawAttr ''id'' ''x'' [], rawAttr ''class'' ''c'' [], rawAttr ''alt'' [] []] []
               exampleCompiler = Inr (tbl, c1)"
    and "sort_Strings (rangeOrder exampleExtern (map fst tbl)) =
         sorted_list_of_set (aName ` set [rawAttr ''id'' ''x'' [], rawAttr ''class'' ''c'' [], rawAttr ''alt'' [] []])"
    by blast
  with col ok show ?thesis
    by (simp only: sorted_names_example) blast
qed

section \<open>Errors at the entry points\<close>

lemma longPanic_Runtime [simp]: "longPanic (RuntimeError m)"
  by (simp add: longPanic_def)

lemma longPanic_nilDeref [simp]: "longPanic nilDeref"
  by (simp add: nilDeref_def)


























section \<open>The merge of template inheritance: properties\<close>














section \<open>The parser: the cached result and extends\<close>

declare parserAt.simps [simp del]

lemma calls_Suc:
  "cParse (parserAt (Suc n) E) = Parse_body E (parserAt n E)"
  "ctopLoop (parserAt (Suc n) E) = topLoop_body (parserAt n E)"
  "cparse (parserAt (Suc n) E) = parse_body E (parserAt n E)"
  "cblockLoop (parserAt (Suc n) E) = blockLoop_body (parserAt n E)"
  "cifLoop (parserAt (Suc n) E) = ifLoop_body (parserAt n E)"
  "cunlessLoop (parserAt (Suc n) E) = unlessLoop_body (parserAt n E)"
  "ctagLoop (parserAt (Suc n) E) = tagLoop_body E (parserAt n E)"
  by (simp_all add: parserAt.simps Let_def)

lemma calls_0:
  "cParse (parserAt 0 E) W p = None"
  "ctopLoop (parserAt 0 E) a W p = None"
  "cparse (parserAt 0 E) W p = None"
  by (simp_all add: parserAt.simps)

lemma Parse_Suc: "Parse (Suc n) E W p = Parse_body E (parserAt n E) W p"
  by (simp add: Parse_def calls_Suc)

lemma parse_Suc: "parse (Suc n) E W p = parse_body E (parserAt n E) W p"
  by (simp add: parse_def calls_Suc)

lemma cParse_Parse: "cParse (parserAt n E) = Parse n E"
  by (simp add: Parse_def)

lemma bindP_Inr:
  "bindP m f = Some (Inr r) \<longleftrightarrow> (\<exists>x W p. m = Some (Inr (x, W, p)) \<and> f x W p = Some (Inr r))"
  by (auto simp: bindP_def split: option.splits sum.splits)

lemma recoverParse_Inr: "recoverParse E r = Some (Inr x) \<longleftrightarrow> r = Some (Inr x)"
  by (auto simp: recoverParse_def Let_def split: option.splits sum.splits prod.splits)

lemma result_set_result: "result (set_result r p) = r"
  by (simp add: set_result_def)

lemma Parse_result:
  "Parse n E W p = Some (Inr (b, W', p')) \<Longrightarrow> result p' = b \<and> b \<noteq> None"
proof (induction n arbitrary: W p b W' p')
  case 0
  then show ?case by (simp add: Parse_def calls_0)
next
  case (Suc n)
  show ?case
  proof (cases "result p \<noteq> None")
    case True
    with Suc.prems show ?thesis
      by (auto simp: Parse_Suc Parse_body_def ret_def)
  next
    case False
    obtain a W1 where nb: "newBlock W = (a, W1)" by (cases "newBlock W")
    from Suc.prems False nb obtain W2 p2 where
      k: "(case parent p2 of
             None \<Rightarrow> ret (Some a) W2 (set_result (Some a) p2)
           | Some q \<Rightarrow>
               (case cParse (parserAt n E) W2 q of
                  None \<Rightarrow> None
                | Some (Inl (e, _)) \<Rightarrow> Some (Inl (e, ppos p2))
                | Some (Inr (_, Wa, q')) \<Rightarrow>
                    (case mergeNamedBlocks (rangeNamedBlocks E (namedBlocks q')) (namedBlocks p2) Wa of
                       None \<Rightarrow> None
                     | Some Wb \<Rightarrow>
                         ret (result q') Wb (set_result (result q') (set_parent (Some q') p2)))))
          = Some (Inr (b, W', p'))"
      by (auto simp: Parse_Suc Parse_body_def recoverParse_Inr bindP_Inr Let_def)
    show ?thesis
    proof (cases "parent p2")
      case None
      with k show ?thesis by (auto simp: ret_def result_set_result)
    next
      case (Some q)
      with k obtain r Wa q' where pq: "cParse (parserAt n E) W2 q = Some (Inr (r, Wa, q'))"
        and b: "b = result q'" and p': "result p' = result q'"
        by (auto simp: ret_def result_set_result split: option.splits sum.splits prod.splits)
      from Suc.IH [OF pq [folded Parse_def]] b p' show ?thesis by simp
    qed
  qed
qed

text \<open>
  C3. After an invocation of \<open>Parse\<close> that returned (with the block \<open>b\<close>, the heap
  \<open>W'\<close> and the parser \<open>p'\<close>), every further invocation on that parser, with any fuel
  but none, returns the same block and changes neither the heap nor the parser: no token
  is taken from the scanner, nothing is parsed or merged again.
\<close>

theorem parse_cached:
  assumes "Parse n E W p = Some (Inr (b, W', p'))"
  shows "Parse (Suc m) E W' p' = Some (Inr (b, W', p')) \<and> b \<noteq> None"
  using Parse_result [OF assms]
  by (auto simp: Parse_Suc Parse_body_def ret_def)

lemma parse_extends:
  assumes "currenttoken p = Some t" and "Kind t = tokExtends"
  shows "parse (Suc n) E W p = parseExtends E (Parse n E) W p"
  using assms by (simp add: parse_Suc parse_body_def withTok_def cParse_Parse)

lemma expect_ok:
  "currenttoken p = Some t \<Longrightarrow> Kind t = k \<Longrightarrow> expect k W p = Some (Inr (t, W, advance p))"
  by (simp add: expect_def withTok_def ret_def)

text \<open>
  C8. At an \<open>extends\<close> token, a parser that already has a parent panics with
  \<open>Unable to extend multiple parent templates.\<close>; a parser without a parent, when the
  target resolves to a file that can be read and that file parses, takes the parser of that
  file, as it is after its \<open>Parse\<close>, as its parent and yields a new empty block.
\<close>

theorem extends_once:
  assumes tok: "currenttoken p = Some t" "Kind t = tokExtends"
  shows "(parent p \<noteq> None \<longrightarrow>
            parse (Suc n) E W p =
              Some (Inl (PanicString ''Unable to extend multiple parent templates.'', ppos p)))
       \<and> (parent p = None
            \<and> parseRelativeFile E (Value t) W (advance p) = Some (Inr (q, W, advance p))
            \<and> Parse n E W q = Some (Inr (b, W', q')) \<longrightarrow>
            parse (Suc n) E W p =
              Some (Inr (Block (nextAddr W'), snd (newBlock W'), set_parent (Some q') (advance p)))
            \<and> parent (set_parent (Some q') (advance p)) = Some q'
            \<and> childrenOf (snd (newBlock W')) (nextAddr W') = [])"
proof (intro conjI impI)
  assume "parent p \<noteq> None"
  then show "parse (Suc n) E W p =
      Some (Inl (PanicString ''Unable to extend multiple parent templates.'', ppos p))"
    by (simp add: parse_extends [OF tok] parseExtends_def raise_def)
next
  assume a: "parent p = None
            \<and> parseRelativeFile E (Value t) W (advance p) = Some (Inr (q, W, advance p))
            \<and> Parse n E W q = Some (Inr (b, W', q'))"
  then show "parse (Suc n) E W p =
              Some (Inr (Block (nextAddr W'), snd (newBlock W'), set_parent (Some q') (advance p)))"
    by (simp add: parse_extends [OF tok] parseExtends_def expect_ok [OF tok] bindP_def newBlock_def ret_def)
  show "parent (set_parent (Some q') (advance p)) = Some q'"
    by (simp add: set_parent_def)
  show "childrenOf (snd (newBlock W')) (nextAddr W') = []"
    by (simp add: newBlock_def childrenOf_def)
qed

lemma advance_cons:
  "scanner p = \<lparr>stream = (t, ps) # rest, readRaw = r, spos = ps0\<rparr> \<Longrightarrow>
   advance p = Parser \<lparr>stream = rest, readRaw = r, spos = ps\<rparr> (filename p) (Some t) (namedBlocks p) (parent p) (result p)"
  by (simp add: advance_def Next_def set_currenttoken_def set_scanner_def)

lemma Parse_layout:
  "Parse (Suc (Suc (Suc 0))) E emptyWorld layoutParser =
     Some (Inr (Some 0,
                push 0 (Doctype (zeroPos\<lparr>Filename := ''views/layout.jade''\<rparr>) ''html'') (snd (newBlock emptyWorld)),
                set_result (Some 0) (advance (advance layoutParser))))"
  by (simp add: Parse_Suc Parse_body_def calls_Suc topLoop_body_def parse_body_def
      layoutParser_def fileParser_def newScanner_def tk_def advance_def Next_def
      set_currenttoken_def set_scanner_def set_result_def recoverParse_def bindP_def ret_def
      withTok_def parseDoctype_def expect_def newBlock_def emptyWorld_def ppos_def zeroPos_def)

theorem parse_cached_witness:
  "Parse (Suc 0) examplePEnv
      (push 0 (Doctype (zeroPos\<lparr>Filename := ''views/layout.jade''\<rparr>) ''html'') (snd (newBlock emptyWorld)))
      (set_result (Some 0) (advance (advance layoutParser)))
   = Some (Inr (Some 0,
                push 0 (Doctype (zeroPos\<lparr>Filename := ''views/layout.jade''\<rparr>) ''html'') (snd (newBlock emptyWorld)),
                set_result (Some 0) (advance (advance layoutParser))))
   \<and> stream (scanner (set_result (Some 0) (advance (advance layoutParser)))) = []"
proof -
  have "stream (scanner (set_result (Some 0) (advance (advance layoutParser)))) = []"
    by (simp add: layoutParser_def fileParser_def newScanner_def tk_def advance_def Next_def
        set_currenttoken_def set_scanner_def set_result_def)
  with parse_cached [OF Parse_layout, of 0 examplePEnv] show ?thesis by simp
qed

lemma relative_layout:
  "parseRelativeFile examplePEnv ''layout'' W (advance pageParser) = Some (Inr (layoutParser, W, advance pageParser))"
  by (simp add: parseRelativeFile_def examplePEnv_def pageParser_def advance_def Next_def tk_def
      set_currenttoken_def set_scanner_def layoutParser_def fileParser_def Let_def)

theorem extends_once_witness:
  "parse (Suc 0) examplePEnv emptyWorld extendedParser =
     Some (Inl (PanicString ''Unable to extend multiple parent templates.'', ppos extendedParser))
   \<and> parse (Suc (Suc (Suc (Suc 0)))) examplePEnv emptyWorld pageParser =
       Some (Inr (Block 1,
                  snd (newBlock (push 0 (Doctype (zeroPos\<lparr>Filename := ''views/layout.jade''\<rparr>) ''html'')
                                   (snd (newBlock emptyWorld)))),
                  set_parent (Some (set_result (Some 0) (advance (advance layoutParser)))) (advance pageParser)))"
proof -
  have t1: "currenttoken extendedParser = Some extendsToken" "Kind extendsToken = tokExtends"
    and t2: "currenttoken pageParser = Some extendsToken"
    by (simp_all add: extendedParser_def pageParser_def set_parent_def extendsToken_def)
  have p1: "parent extendedParser \<noteq> None"
    by (simp add: extendedParser_def set_parent_def)
  have p2: "parent pageParser = None"
    by (simp add: pageParser_def)
  have v: "Value extendsToken = ''layout''"
    by (simp add: extendsToken_def)
  have n: "nextAddr (push 0 (Doctype (zeroPos\<lparr>Filename := ''views/layout.jade''\<rparr>) ''html'')
                                   (snd (newBlock emptyWorld))) = 1"
    by (simp add: push_def updBlock_def newBlock_def emptyWorld_def)
  from extends_once [OF t1, where n = 0 and E = examplePEnv and W = emptyWorld] p1
  have 1: "parse (Suc 0) examplePEnv emptyWorld extendedParser =
     Some (Inl (PanicString ''Unable to extend multiple parent templates.'', ppos extendedParser))"
    by simp
  from extends_once [OF t2 t1(2), where E = examplePEnv and W = emptyWorld and q = layoutParser
      and n = "Suc (Suc (Suc 0))" and b = "Some 0"
      and W' = "push 0 (Doctype (zeroPos\<lparr>Filename := ''views/layout.jade''\<rparr>) ''html'') (snd (newBlock emptyWorld))"
      and q' = "set_result (Some 0) (advance (advance layoutParser))"]
    p2 relative_layout [of emptyWorld] Parse_layout [of examplePEnv] v n
  have 2: "parse (Suc (Suc (Suc (Suc 0)))) examplePEnv emptyWorld pageParser =
       Some (Inr (Block 1,
                  snd (newBlock (push 0 (Doctype (zeroPos\<lparr>Filename := ''views/layout.jade''\<rparr>) ''html'')
                                   (snd (newBlock emptyWorld)))),
                  set_parent (Some (set_result (Some 0) (advance (advance layoutParser)))) (advance pageParser)))"
    by simp
  from 1 2 show ?thesis by simp
qed


end
